theory Spec2Isabelle
  imports Complex_Main "HOL-Library.Sublist"
begin

section \<open>JavaScript values, strings and platform built-ins\<close>

text \<open>
  The scoring engine of \<^verbatim>\<open>background.js\<close> is embedded as HOL functions.
  A payload is a JavaScript value as a message can carry it (JSON data, or \<^verbatim>\<open>undefined\<close>).
  A string is a list of code units; the model covers the code units 0 to 255, where one code
  unit is one code point. Numbers are idealised: a JavaScript double is an exact real, so
  \<^verbatim>\<open>score += 0.40\<close> adds exactly four tenths, a sum of scores carries no rounding error, and
  \<^verbatim>\<open>toFixed\<close> rounds the exact quotient. Where the double nearest to a value lies on the
  other side of a threshold or of a rounding tie, the program and the model can differ; the
  bounds proved below do not rest on such a tie, and the closed forms and the concrete scores
  are those of this exact arithmetic.
\<close>

datatype jsval =
    JUndefined
  | JNull
  | JBool bool
  | JNum real
  | JStr string
  | JArr "jsval list"
  | JObj "(string \<times> jsval) list"

datatype js_error = TypeError

text \<open>
  A computation is \<open>Inr\<close> of its value, or \<open>Inl\<close> of the exception it throws; a statement
  that throws outside a \<^verbatim>\<open>try\<close> ends the function with that exception. The values of a
  list of computations, or the first exception among them:
\<close>

fun sequence_err :: "(js_error + 'a) list \<Rightarrow> js_error + 'a list" where
  "sequence_err [] = Inr []"
| "sequence_err (m # ms) =
     (case m of
        Inl e \<Rightarrow> Inl e
      | Inr x \<Rightarrow> (case sequence_err ms of Inl e \<Rightarrow> Inl e | Inr xs \<Rightarrow> Inr (x # xs)))"

text \<open>What \<^verbatim>\<open>new URL(...)\<close> exposes to the program: \<^verbatim>\<open>hostname\<close> and \<^verbatim>\<open>pathname\<close>.\<close>

record URL_obj =
  url_hostname :: string
  url_pathname :: string

text \<open>
  Built-ins of the JavaScript platform that the repository calls and does not define. They are
  parameters of the model: \<open>URL P input base\<close> is \<^verbatim>\<open>new URL(input, base)\<close>, with \<open>None\<close>
  when the constructor throws; \<open>NumberToString\<close> is the decimal rendering of a number;
  \<open>StringToNumber\<close> is the numeric value of a string, \<open>None\<close> for \<^verbatim>\<open>NaN\<close>.
\<close>

record platform =
  URL :: "string \<Rightarrow> string option \<Rightarrow> URL_obj option"
  NumberToString :: "real \<Rightarrow> string"
  StringToNumber :: "string \<Rightarrow> real option"

fun truthy :: "jsval \<Rightarrow> bool" where
  "truthy JUndefined = False"
| "truthy JNull = False"
| "truthy (JBool b) = b"
| "truthy (JNum n) = (n \<noteq> 0)"
| "truthy (JStr s) = (s \<noteq> [])"
| "truthy (JArr xs) = True"
| "truthy (JObj kvs) = True"

fun nullish :: "jsval \<Rightarrow> bool" where
  "nullish JUndefined = True"
| "nullish JNull = True"
| "nullish v = False"

text \<open>\<^verbatim>\<open>a || b\<close>\<close>

definition or_else :: "jsval \<Rightarrow> jsval \<Rightarrow> jsval" where
  "or_else a b = (if truthy a then a else b)"

text \<open>\<^verbatim>\<open>parts.join(sep)\<close>\<close>

fun join :: "string \<Rightarrow> string list \<Rightarrow> string" where
  "join sep [] = []"
| "join sep [x] = x"
| "join sep (x # y # ys) = x @ sep @ join sep (y # ys)"

text \<open>
  The string a value is coerced to (\<^verbatim>\<open>String(v)\<close>, \<^verbatim>\<open>v.toString()\<close>, template literals,
  \<^verbatim>\<open>'https://' + v\<close>, the argument of \<^verbatim>\<open>RegExp.test\<close> and of \<^verbatim>\<open>new URL\<close>). An array joins its
  elements with commas, \<^verbatim>\<open>null\<close> and \<^verbatim>\<open>undefined\<close> elements as empty strings. An object
  of data is \<^verbatim>\<open>[object Object]\<close> through the inherited \<^verbatim>\<open>toString\<close>; when it has a property
  \<^verbatim>\<open>toString\<close> of its own, that property is data and not a function, and every one of these
  coercions throws a \<^verbatim>\<open>TypeError\<close>.
\<close>

fun toStr :: "platform \<Rightarrow> jsval \<Rightarrow> js_error + string" where
  "toStr P JUndefined = Inr ''undefined''"
| "toStr P JNull = Inr ''null''"
| "toStr P (JBool b) = Inr (if b then ''true'' else ''false'')"
| "toStr P (JNum n) = Inr (NumberToString P n)"
| "toStr P (JStr s) = Inr s"
| "toStr P (JArr xs) =
     (case sequence_err (map (\<lambda>x. if nullish x then Inr [] else toStr P x) xs) of
        Inl e \<Rightarrow> Inl e
      | Inr ss \<Rightarrow> Inr (join '','' ss))"
| "toStr P (JObj kvs) =
     (case map_of kvs ''toString'' of
        None \<Rightarrow> Inr ''[object Object]''
      | Some v \<Rightarrow> Inl TypeError)"

text \<open>
  \<^verbatim>\<open>v.name\<close> for a value that is neither \<^verbatim>\<open>null\<close> nor \<^verbatim>\<open>undefined\<close> (the callers test for
  those two, on which the read throws). An object of data yields its own property; the
  prototypes of strings, numbers, booleans and arrays have none of the names the program reads
  with \<open>get_prop\<close>.
\<close>

fun get_prop :: "jsval \<Rightarrow> string \<Rightarrow> jsval" where
  "get_prop (JObj kvs) k = (case map_of kvs k of Some v \<Rightarrow> v | None \<Rightarrow> JUndefined)"
| "get_prop v k = JUndefined"

text \<open>\<^verbatim>\<open>v.length\<close>\<close>

fun js_length :: "jsval \<Rightarrow> jsval" where
  "js_length (JArr xs) = JNum (real (length xs))"
| "js_length (JStr s) = JNum (real (length s))"
| "js_length v = get_prop v ''length''"

text \<open>
  \<^verbatim>\<open>for (const x of v)\<close>: an array yields its elements, a string its characters;
  nothing else among the values of the model is iterable, and the loop throws.
\<close>

fun iterate :: "jsval \<Rightarrow> js_error + jsval list" where
  "iterate (JArr xs) = Inr xs"
| "iterate (JStr s) = Inr (map (\<lambda>c. JStr [c]) s)"
| "iterate v = Inl TypeError"

text \<open>
  \<^verbatim>\<open>v > 0\<close>, with the coercion of \<^verbatim>\<open>v\<close> to a number: \<^verbatim>\<open>null\<close> is 0 and \<^verbatim>\<open>undefined\<close> is
  \<^verbatim>\<open>NaN\<close>; an array goes through its string; an object goes through its string too, which
  is not a number, or throws.
\<close>

definition string_gt0 :: "platform \<Rightarrow> string \<Rightarrow> bool" where
  "string_gt0 P s = (case StringToNumber P s of Some n \<Rightarrow> n > 0 | None \<Rightarrow> False)"

fun gt0 :: "platform \<Rightarrow> jsval \<Rightarrow> js_error + bool" where
  "gt0 P (JNum n) = Inr (n > 0)"
| "gt0 P (JBool b) = Inr b"
| "gt0 P (JStr s) = Inr (string_gt0 P s)"
| "gt0 P (JArr xs) =
     (case toStr P (JArr xs) of Inl e \<Rightarrow> Inl e | Inr s \<Rightarrow> Inr (string_gt0 P s))"
| "gt0 P (JObj kvs) =
     (case toStr P (JObj kvs) of Inl e \<Rightarrow> Inl e | Inr s \<Rightarrow> Inr False)"
| "gt0 P v = Inr False"

subsection \<open>String methods\<close>

text \<open>
  \<^verbatim>\<open>toLowerCase\<close> on one code unit: the letters A to Z, and the upper-case letters of
  Latin-1 (0xC0 to 0xDE, without the multiplication sign 0xD7).
\<close>

definition lower_char :: "char \<Rightarrow> char" where
  "lower_char c =
     (let n = (of_char c :: nat) in
      if (65 \<le> n \<and> n \<le> 90) \<or> (192 \<le> n \<and> n \<le> 222 \<and> n \<noteq> 215)
      then char_of (n + 32) else c)"

definition toLowerCase :: "string \<Rightarrow> string" where
  "toLowerCase s = map lower_char s"

text \<open>
  \<^verbatim>\<open>s.split(c)\<close> for a separator of one character. The result is never empty, so the
  last case of the second equation is not reached.
\<close>

fun split_on :: "char \<Rightarrow> string \<Rightarrow> string list" where
  "split_on c [] = ['''']"
| "split_on c (x # xs) =
     (if x = c then [] # split_on c xs
      else (case split_on c xs of p # ps \<Rightarrow> (x # p) # ps | [] \<Rightarrow> [x # '''']))"

text \<open>\<^verbatim>\<open>s.includes(t)\<close>: \<open>t\<close> occurs in \<open>s\<close> as a contiguous run.\<close>

definition str_includes :: "string \<Rightarrow> string \<Rightarrow> bool" where
  "str_includes s t = sublist t s"

text \<open>\<^verbatim>\<open>xs.slice(-2)\<close>\<close>

definition slice_last2 :: "'a list \<Rightarrow> 'a list" where
  "slice_last2 xs = drop (length xs - 2) xs"

text \<open>\<^verbatim>\<open>s.trim()\<close>: white space and line terminators among the code units below 256.\<close>

definition is_space :: "char \<Rightarrow> bool" where
  "is_space c = ((of_char c :: nat) \<in> {9, 10, 11, 12, 13, 32, 160})"

definition trim :: "string \<Rightarrow> string" where
  "trim s = rev (dropWhile is_space (rev (dropWhile is_space s)))"

text \<open>\<^verbatim>\<open>s.replace(/^www\./, '')\<close> and \<^verbatim>\<open>s.replace(/^@/, '')\<close>\<close>

definition strip_prefix :: "string \<Rightarrow> string \<Rightarrow> string" where
  "strip_prefix p s = (if prefix p s then drop (length p) s else s)"

subsection \<open>The regular expressions of the program\<close>

text \<open>\<^verbatim>\<open>/^https?:\/\//i\<close>\<close>

definition test_http_scheme :: "string \<Rightarrow> bool" where
  "test_http_scheme s = (prefix ''http://'' (toLowerCase s) \<or> prefix ''https://'' (toLowerCase s))"

text \<open>\<^verbatim>\<open>/^[a-z0-9.-]+$/i\<close>\<close>

definition host_char :: "char \<Rightarrow> bool" where
  "host_char c = (c \<in> set ''abcdefghijklmnopqrstuvwxyzABCDEFGHIJKLMNOPQRSTUVWXYZ0123456789.-'')"

definition test_bare_host :: "string \<Rightarrow> bool" where
  "test_bare_host s = (s \<noteq> [] \<and> list_all host_char s)"

text \<open>\<^verbatim>\<open>/^https:/i\<close>\<close>

definition test_https :: "string \<Rightarrow> bool" where
  "test_https s = prefix ''https:'' (toLowerCase s)"

text \<open>\<^verbatim>\<open>\d\<close>\<close>

definition is_digit :: "char \<Rightarrow> bool" where
  "is_digit c = (c \<in> set ''0123456789'')"

text \<open>A pattern of plain lower-case text with the flag \<^verbatim>\<open>i\<close>, as \<^verbatim>\<open>/hyphen/i\<close>.\<close>

definition test_ci :: "string \<Rightarrow> string \<Rightarrow> bool" where
  "test_ci pat s = str_includes (toLowerCase s) pat"

subsection \<open>Printing numbers\<close>

definition digit_char :: "nat \<Rightarrow> char" where
  "digit_char d = char_of (48 + d)"

function show_nat :: "nat \<Rightarrow> string" where
  "show_nat n = (if n < 10 then [digit_char n] else show_nat (n div 10) @ [digit_char (n mod 10)])"
  by pat_completeness auto
termination
  by (relation "measure id") auto

text \<open>
  \<^verbatim>\<open>x.toFixed(2)\<close> on the exact value of \<open>x\<close>: the nearest multiple of a hundredth, the larger
  one on a tie. The program prints normalised distances only, which lie between 0 and 1.
\<close>

definition toFixed2 :: "real \<Rightarrow> string" where
  "toFixed2 x =
     (let n = nat \<lfloor>\<bar>x\<bar> * 100 + 1 / 2\<rfloor> in
      (if x < 0 then ''-'' else []) @ show_nat (n div 100) @ ''.'' @
      [digit_char (n mod 100 div 10), digit_char (n mod 10)])"

section \<open>Utilities (background.js, lines 19 to 90)\<close>

text \<open>
  \<^verbatim>\<open>new URL(u).hostname.toLowerCase()\<close> inside the \<^verbatim>\<open>try\<close> of \<^verbatim>\<open>safeGetHostname\<close>, with
  its \<^verbatim>\<open>catch\<close>: the lower-cased text that was handed to the constructor.
\<close>

definition parse_hostname :: "platform \<Rightarrow> string \<Rightarrow> string" where
  "parse_hostname P u =
     (case URL P u None of
        Some r \<Rightarrow> toLowerCase (url_hostname r)
      | None \<Rightarrow> toLowerCase u)"

text \<open>
  \<^verbatim>\<open>safeGetHostname\<close>. For a bare host name that is not a string, \<^verbatim>\<open>urlOrHost.toLowerCase\<close>
  is not a function; the \<^verbatim>\<open>catch\<close> returns \<^verbatim>\<open>urlOrHost.toString().toLowerCase()\<close>, the
  same text. When the value has no string, the first \<^verbatim>\<open>RegExp.test\<close> throws inside the
  \<^verbatim>\<open>try\<close>, and \<^verbatim>\<open>urlOrHost.toString()\<close> throws again inside the \<^verbatim>\<open>catch\<close>: the function
  throws.
\<close>

definition safeGetHostname :: "platform \<Rightarrow> jsval \<Rightarrow> js_error + string" where
  "safeGetHostname P urlOrHost =
     (if \<not> truthy urlOrHost then Inr []
      else
        (case toStr P urlOrHost of
           Inl e \<Rightarrow> Inl e
         | Inr s \<Rightarrow>
             Inr (if \<not> test_http_scheme s then
                    (if test_bare_host s then toLowerCase s
                     else parse_hostname P (''https://'' @ s))
                  else parse_hostname P s)))"

definition getLabels :: "string \<Rightarrow> string list" where
  "getLabels hostname = filter (\<lambda>l. l \<noteq> []) (split_on CHR ''.'' hostname)"

definition getRegisteredDomain :: "string \<Rightarrow> string" where
  "getRegisteredDomain hostname =
     (let parts = getLabels hostname in
      if length parts \<ge> 2 then join ''.'' (slice_last2 parts) else hostname)"

definition getSecondLevelLabel :: "string \<Rightarrow> string" where
  "getSecondLevelLabel hostname =
     (let parts = getLabels hostname in
      if parts = [] then []
      else if length parts \<ge> 2 then toLowerCase (parts ! (length parts - 2))
      else toLowerCase (parts ! 0))"

text \<open>\<^verbatim>\<open>/^\d{1,3}(\.\d{1,3}){3}$/\<close>: four groups of one to three digits between dots.\<close>

definition isIpAddress :: "string \<Rightarrow> bool" where
  "isIpAddress hostname =
     (let gs = split_on CHR ''.'' hostname in
      length gs = 4 \<and> list_all (\<lambda>g. 1 \<le> length g \<and> length g \<le> 3 \<and> list_all is_digit g) gs)"

definition isPunycode :: "string \<Rightarrow> bool" where
  "isPunycode hostname = str_includes hostname ''xn--''"

definition getTld :: "string \<Rightarrow> string" where
  "getTld hostname = toLowerCase (last (split_on CHR ''.'' hostname))"

definition normalizeText :: "platform \<Rightarrow> jsval \<Rightarrow> js_error + string" where
  "normalizeText P s =
     (case toStr P (or_else s (JStr [])) of
        Inl e \<Rightarrow> Inl e
      | Inr t \<Rightarrow> Inr (toLowerCase (trim t)))"

text \<open>
  \<^verbatim>\<open>levenshtein\<close>: two rows \<^verbatim>\<open>v0\<close> and \<^verbatim>\<open>v1\<close>. \<open>lev_row\<close> is the loop over \<^verbatim>\<open>j\<close>, which
  fills \<^verbatim>\<open>v1[j + 1]\<close> from \<^verbatim>\<open>v1[j]\<close> (the argument \<open>prev\<close>), \<^verbatim>\<open>v0[j + 1]\<close> and \<^verbatim>\<open>v0[j]\<close>;
  \<open>lev_rows\<close> is the loop over \<^verbatim>\<open>i\<close>, which ends each round by copying \<^verbatim>\<open>v1\<close> to \<^verbatim>\<open>v0\<close>.
  The row \<^verbatim>\<open>v0\<close> always has \<^verbatim>\<open>b.length + 1\<close> entries.
\<close>

fun lev_row :: "char \<Rightarrow> string \<Rightarrow> nat list \<Rightarrow> nat \<Rightarrow> nat list" where
  "lev_row ai (bj # bs) (v0j # v0j1 # v0s) prev =
     (let cost = (if ai = bj then 0 else 1);
          cur = min (min (prev + 1) (v0j1 + 1)) (v0j + cost)
      in cur # lev_row ai bs (v0j1 # v0s) cur)"
| "lev_row ai bs v0 prev = []"

fun lev_rows :: "string \<Rightarrow> nat \<Rightarrow> string \<Rightarrow> nat list \<Rightarrow> nat list" where
  "lev_rows [] i b v0 = v0"
| "lev_rows (ai # as) i b v0 = lev_rows as (i + 1) b ((i + 1) # lev_row ai b v0 (i + 1))"

definition levenshtein :: "string \<Rightarrow> string \<Rightarrow> nat" where
  "levenshtein a b =
     (if a = b then 0
      else if a = [] then length b
      else if b = [] then length a
      else last (lev_rows a 0 b [0 ..< length b + 1]))"

definition normalizedDistance :: "string \<Rightarrow> string \<Rightarrow> real" where
  "normalizedDistance a b =
     real (levenshtein a b) / real (max (max (length a) (length b)) 1)"

section \<open>Heuristics (background.js, lines 93 to 154)\<close>

definition RISKY_TLDS :: "string list" where
  "RISKY_TLDS = [''xyz'', ''top'', ''club'', ''pw'', ''icu'', ''work'', ''gq'', ''cf'', ''tk'',
     ''ml'', ''ga'', ''biz'', ''click'', ''win'', ''loan'', ''party'']"

text \<open>
  \<^verbatim>\<open>hostIsTrustedExact\<close> reads the global \<^verbatim>\<open>TRUSTED_REGISTERED_DOMAINS\<close>, here the
  argument \<open>G\<close>. A \<^verbatim>\<open>Set\<close> of strings is the list of its elements in insertion order, the
  order in which \<^verbatim>\<open>for ... of\<close> visits them.
\<close>

definition hostIsTrustedExact :: "string list \<Rightarrow> string \<Rightarrow> bool" where
  "hostIsTrustedExact G hostname =
     (if hostname = [] then False
      else toLowerCase (getRegisteredDomain hostname) \<in> set G)"

definition suspiciousPathPatterns :: "string list" where
  "suspiciousPathPatterns =
     [''verify'', ''confirm'', ''signin'', ''login'', ''account'', ''secure'', ''billing'', ''payment'']"

definition brandTokens :: "string list" where
  "brandTokens = [''secure'', ''login'', ''paypal'', ''bank'', ''apple'', ''google'', ''microsoft'']"

text \<open>
  \<^verbatim>\<open>linkIsSuspicious\<close> returns the risk of one link and pushes at most one reason: the
  model returns the risk and the new reasons. The \<^verbatim>\<open>catch\<close> is reached when \<^verbatim>\<open>new URL\<close>
  throws. For a link that has no string, \<^verbatim>\<open>new URL\<close> throws on the coercion and the template
  literal of the \<^verbatim>\<open>catch\<close> throws on it again: the function throws.
\<close>

definition linkIsSuspicious ::
  "platform \<Rightarrow> jsval \<Rightarrow> string \<Rightarrow> string list \<Rightarrow> js_error + real \<times> string list" where
  \<open>linkIsSuspicious P linkUrl pageHostnameNormalized reasons =
     (case toStr P linkUrl of
        Inl e \<Rightarrow> Inl e
      | Inr linkText \<Rightarrow>
       Inr (case URL P linkText
                   (Some (''https://'' @ (if pageHostnameNormalized \<noteq> [] then pageHostnameNormalized
                                         else ''example.com''))) of
              None \<Rightarrow> (0.05, reasons @ [''Malformed/relative link flagged: '' @ linkText])
            | Some url \<Rightarrow>
                let host = toLowerCase (url_hostname url);
                    path = toLowerCase (url_pathname url)
                in
                if host = [] then (0.02, reasons @ [''Empty host for link: '' @ linkText])
                else if isIpAddress host then
                  (0.20, reasons @ [''Link uses raw IP address ('' @ host @ '')''])
                else if isPunycode host then
                  (0.18, reasons @ [''Link contains punycode domain ('' @ host @ '')''])
                else if getTld host \<in> set RISKY_TLDS then
                  (0.12, reasons @ [''Link uses uncommon TLD .'' @ getTld host @ '' ('' @ host @ '')''])
                else
                  (case find (\<lambda>p. str_includes path p) suspiciousPathPatterns of
                     Some p \<Rightarrow>
                       (0.10, reasons @ [''Link path contains suspicious token "'' @ p @ ''" ('' @
                                         url_pathname url @ '')''])
                   | None \<Rightarrow>
                       (if host \<noteq> pageHostnameNormalized then
                          (case find (\<lambda>t. str_includes host t) brandTokens of
                             Some t \<Rightarrow>
                               (0.14, reasons @
                                  [''External link appears to impersonate brand token "'' @
                                   t @ ''" ('' @ host @ '')''])
                           | None \<Rightarrow> (0, reasons))
                        else (0, reasons)))))\<close>

section \<open>The main analysis function (background.js, lines 157 to 337)\<close>

definition TYPOSQUAT_DISTANCE_THRESHOLD :: real where
  "TYPOSQUAT_DISTANCE_THRESHOLD = 0.30"

definition TYPOSQUAT_SCORE_BUMP :: real where
  "TYPOSQUAT_SCORE_BUMP = 0.75"

text \<open>
  The locals \<^verbatim>\<open>suspicious\<close>, \<^verbatim>\<open>score\<close> and \<^verbatim>\<open>reasons\<close>, passed from check to check; the
  returned object adds \<^verbatim>\<open>details\<close>.
\<close>

record verdict =
  suspicious :: bool
  score :: real
  reasons :: "string list"

record details =
  d_username :: string
  d_displayName :: string
  d_isVerified :: bool
  d_isBrand :: bool
  d_pageHostname :: string
  d_url :: jsval
  d_linksCount :: jsval
  d_formsCount :: jsval

record result = verdict +
  details :: details

subsection \<open>The locals read from the payload (lines 160 to 167)\<close>

definition usernameRaw_of :: "jsval \<Rightarrow> jsval" where
  "usernameRaw_of data =
     or_else (or_else (or_else (get_prop data ''username'') (get_prop data ''handle''))
                (get_prop data ''user'')) (JStr [])"

definition username_of :: "platform \<Rightarrow> jsval \<Rightarrow> js_error + string" where
  "username_of P data =
     (case normalizeText P (usernameRaw_of data) of
        Inl e \<Rightarrow> Inl e
      | Inr t \<Rightarrow> Inr (strip_prefix ''@'' t))"

definition displayName_of :: "platform \<Rightarrow> jsval \<Rightarrow> js_error + string" where
  "displayName_of P data =
     normalizeText P
       (or_else (or_else (or_else (get_prop data ''displayName'') (get_prop data ''fullName''))
                   (get_prop data ''title'')) (JStr []))"

definition url_of :: "jsval \<Rightarrow> jsval" where
  "url_of data =
     or_else (or_else (or_else (get_prop data ''url'') (get_prop data ''pageUrl''))
                (get_prop data ''origin'')) (JStr [])"

definition pageHostname_of :: "platform \<Rightarrow> jsval \<Rightarrow> js_error + string" where
  "pageHostname_of P data =
     (case safeGetHostname P (url_of data) of
        Inl e \<Rightarrow> Inl e
      | Inr h \<Rightarrow>
          if h \<noteq> [] then Inr h
          else if truthy (get_prop data ''hostname'')
          then safeGetHostname P (get_prop data ''hostname'')
          else Inr [])"

definition links_of :: "jsval \<Rightarrow> jsval" where
  "links_of data =
     (case get_prop data ''links'' of
        JArr xs \<Rightarrow> JArr xs
      | _ \<Rightarrow> or_else (get_prop data ''linkList'') (JArr []))"

definition forms_of :: "jsval \<Rightarrow> jsval" where
  "forms_of data =
     (case get_prop data ''forms'' of
        JArr xs \<Rightarrow> JArr xs
      | _ \<Rightarrow> or_else (get_prop data ''formList'') (JArr []))"

definition textSample_of :: "platform \<Rightarrow> jsval \<Rightarrow> js_error + string" where
  "textSample_of P data =
     (case toStr P (or_else (get_prop data ''textSample'') (JStr [])) of
        Inl e \<Rightarrow> Inl e
      | Inr t \<Rightarrow> Inr (take 4000 t))"

subsection \<open>Typosquat detection (lines 174 to 224)\<close>

record best =
  best_domain :: "string option"
  best_dist :: real
  best_sld :: "string option"

record bestFull =
  bestFull_domain :: "string option"
  bestFull_dist :: real

text \<open>\<^verbatim>\<open>best.domain &&\<close>: \<^verbatim>\<open>null\<close> and the empty string are falsy.\<close>

fun opt_truthy :: "string option \<Rightarrow> bool" where
  "opt_truthy None = False"
| "opt_truthy (Some s) = (s \<noteq> [])"

text \<open>A string or \<^verbatim>\<open>null\<close> inside a template literal.\<close>

fun opt_str :: "string option \<Rightarrow> string" where
  "opt_str None = ''null''"
| "opt_str (Some s) = s"

text \<open>The two loops \<^verbatim>\<open>for (const td of TRUSTED)\<close>.\<close>

fun sld_search :: "string \<Rightarrow> string list \<Rightarrow> best \<Rightarrow> best" where
  "sld_search currentSld [] b = b"
| "sld_search currentSld (td # tds) b =
     (let tdSld = getSecondLevelLabel td;
          d = normalizedDistance currentSld tdSld
      in sld_search currentSld tds
           (if d < best_dist b
            then \<lparr>best_domain = Some td, best_dist = d, best_sld = Some tdSld\<rparr> else b))"

fun full_search :: "string \<Rightarrow> string list \<Rightarrow> bestFull \<Rightarrow> bestFull" where
  "full_search currentReg [] b = b"
| "full_search currentReg (td # tds) b =
     (let d = normalizedDistance currentReg td
      in full_search currentReg tds
           (if d < bestFull_dist b then \<lparr>bestFull_domain = Some td, bestFull_dist = d\<rparr> else b))"

definition BRAND_KEYWORDS :: "(string \<times> string list) list" where
  "BRAND_KEYWORDS =
     [(''facebook'', [''faceb'', ''fbk'', ''fb'', ''facebok'', ''faceboek'', ''faceboook'']),
      (''tiktok'', [''tiktok'', ''ttk'', ''tik-tok''])]"

definition brand_keyword :: "string list \<Rightarrow> string \<Rightarrow> string \<Rightarrow> string \<Rightarrow> string \<Rightarrow> verdict \<Rightarrow> verdict" where
  \<open>brand_keyword TRUSTED currentReg currentSld brand kw st =
     (if (currentSld \<noteq> [] \<and> str_includes currentSld kw) \<and> currentReg \<notin> set TRUSTED then
        st\<lparr>reasons := reasons st @
              [''Domain SLD "'' @ currentSld @ ''" contains brand-like token "'' @ kw @
               ''" (looks like '' @ brand @ '')''],
           suspicious := True,
           score := max (score st) 0.65\<rparr>
      else st)\<close>

definition brand_check :: "string list \<Rightarrow> string \<Rightarrow> string \<Rightarrow> verdict \<Rightarrow> verdict" where
  "brand_check TRUSTED currentReg currentSld st =
     fold (\<lambda>(brand, keywords) st1.
             fold (\<lambda>kw st2. brand_keyword TRUSTED currentReg currentSld brand kw st2) keywords st1)
          BRAND_KEYWORDS st"

text \<open>
  The \<^verbatim>\<open>try\<close> block of the typosquat check. On a trusted set of strings nothing in it
  throws, so its \<^verbatim>\<open>catch\<close> (reason \<^verbatim>\<open>Error during typosquat check\<close>) is not reached.
\<close>

definition typosquat_check :: "string list \<Rightarrow> string \<Rightarrow> verdict \<Rightarrow> verdict" where
  \<open>typosquat_check TRUSTED pageHostname st =
     (let currentReg = toLowerCase (getRegisteredDomain pageHostname);
          currentSld = getSecondLevelLabel pageHostname
      in
      if currentReg \<notin> set TRUSTED then
        let b = sld_search currentSld TRUSTED
                  \<lparr>best_domain = None, best_dist = 1.0, best_sld = None\<rparr>;
            st1 =
              (if opt_truthy (best_domain b) \<and> best_dist b \<le> TYPOSQUAT_DISTANCE_THRESHOLD then
                 st\<lparr>reasons := reasons st @
                       [''Domain SLD "'' @ currentSld @ ''" closely resembles trusted SLD "'' @
                        opt_str (best_sld b) @ ''" (distance '' @ toFixed2 (best_dist b) @
                        ''). Treated as typosquat ('' @ currentReg @ '' ~ '' @
                        opt_str (best_domain b) @ '').''],
                    suspicious := True,
                    score := max (score st) TYPOSQUAT_SCORE_BUMP\<rparr>
               else
                 let bf = full_search currentReg TRUSTED
                            \<lparr>bestFull_domain = None, bestFull_dist = 1.0\<rparr>
                 in
                 if opt_truthy (bestFull_domain bf) \<and> bestFull_dist bf \<le> TYPOSQUAT_DISTANCE_THRESHOLD
                 then
                   st\<lparr>reasons := reasons st @
                         [''Registered domain "'' @ currentReg @
                          ''" somewhat resembles trusted domain "'' @
                          opt_str (bestFull_domain bf) @ ''" (distance '' @
                          toFixed2 (bestFull_dist bf) @ '').''],
                      suspicious := True,
                      score := max (score st) TYPOSQUAT_SCORE_BUMP\<rparr>
                 else st\<lparr>reasons := reasons st @ [''No similarity to trusted domains detected'']\<rparr>)
        in brand_check TRUSTED currentReg currentSld st1
      else st\<lparr>reasons := reasons st @ [''Exact registered domain is trusted'']\<rparr>)\<close>

subsection \<open>HTTPS check (lines 226 to 231)\<close>

text \<open>\<^verbatim>\<open>RegExp.test\<close> coerces \<^verbatim>\<open>url\<close> to a string, outside every \<^verbatim>\<open>try\<close>.\<close>

definition https_check :: "platform \<Rightarrow> jsval \<Rightarrow> bool \<Rightarrow> verdict \<Rightarrow> js_error + verdict" where
  "https_check P url trustedExact st =
     (case toStr P url of
        Inl e \<Rightarrow> Inl e
      | Inr urlText \<Rightarrow>
          Inr (if \<not> test_https urlText then
                 let st1 = st\<lparr>reasons := reasons st @ [''Page not served over HTTPS''],
                              score := score st + 0.20\<rparr>
                 in if trustedExact \<and> \<not> suspicious st1 then st1\<lparr>score := min (score st1) 0.05\<rparr>
                    else st1
               else st))"

subsection \<open>Forms (lines 233 to 251)\<close>

text \<open>
  The \<^verbatim>\<open>try\<close> block in the body of \<^verbatim>\<open>for (const f of forms)\<close>. It throws when \<^verbatim>\<open>f\<close> is
  \<^verbatim>\<open>null\<close> or \<^verbatim>\<open>undefined\<close> (the first read of a property), when \<^verbatim>\<open>safeGetHostname\<close>
  throws on the action, and when the comparison \<^verbatim>\<open>f.inputCount > 0\<close> throws; each time
  before anything is changed.
\<close>

definition form_try :: "platform \<Rightarrow> bool \<Rightarrow> string \<Rightarrow> jsval \<Rightarrow> verdict \<Rightarrow> js_error + verdict" where
  "form_try P trustedExact pageHostname f st =
     (if nullish f then Inl TypeError
      else if truthy (get_prop f ''hasPassword'') \<and> truthy (get_prop f ''action'') then
        (case safeGetHostname P (get_prop f ''action'') of
           Inl e \<Rightarrow> Inl e
         | Inr actionHost \<Rightarrow>
             Inr (if actionHost \<noteq> [] \<and> actionHost \<noteq> pageHostname \<and>
                     \<not> str_includes actionHost
                         (join ''.'' (slice_last2 (split_on CHR ''.'' pageHostname)))
                  then
                    st\<lparr>reasons := reasons st @
                          [''Login form posts to external host ('' @ actionHost @ '')''],
                       score := score st + 0.40,
                       suspicious := True\<rparr>
                  else st))
      else
        (case gt0 P (get_prop f ''inputCount'') of
           Inl e \<Rightarrow> Inl e
         | Inr positive \<Rightarrow>
             Inr (if positive \<and> \<not> truthy (get_prop f ''hasPassword'') \<and>
                     truthy (get_prop f ''action'') then
                    st\<lparr>reasons := reasons st @
                          [''Form with inputs but no password field (possible data harvesting)''],
                       score := score st + (if trustedExact then 0.02 else 0.06)\<rparr>
                  else st)))"

text \<open>The body of the loop: the \<^verbatim>\<open>try\<close> block, and the \<^verbatim>\<open>catch\<close> that adds 0.04.\<close>

definition form_step :: "platform \<Rightarrow> bool \<Rightarrow> string \<Rightarrow> jsval \<Rightarrow> verdict \<Rightarrow> verdict" where
  "form_step P trustedExact pageHostname f st =
     (case form_try P trustedExact pageHostname f st of
        Inr st' \<Rightarrow> st'
      | Inl e \<Rightarrow>
          st\<lparr>reasons := reasons st @ [''Malformed form action detected''],
             score := score st + 0.04\<rparr>)"

definition forms_check :: "platform \<Rightarrow> bool \<Rightarrow> string \<Rightarrow> jsval list \<Rightarrow> verdict \<Rightarrow> verdict" where
  "forms_check P trustedExact pageHostname fs st =
     fold (form_step P trustedExact pageHostname) fs st"

subsection \<open>Links (lines 253 to 264)\<close>

text \<open>
  \<^verbatim>\<open>links.slice(0, 40)\<close>: arrays and strings have the method; on any other value that got
  past \<^verbatim>\<open>links && links.length\<close> the call throws.
\<close>

fun slice40 :: "jsval \<Rightarrow> js_error + jsval" where
  "slice40 (JArr xs) = Inr (JArr (take 40 xs))"
| "slice40 (JStr s) = Inr (JStr (take 40 s))"
| "slice40 v = Inl TypeError"

text \<open>\<^verbatim>\<open>links.length\<close> as a number, for the arrays and strings that get past \<open>slice40\<close>.\<close>

fun num_length :: "jsval \<Rightarrow> real" where
  "num_length (JArr xs) = real (length xs)"
| "num_length (JStr s) = real (length s)"
| "num_length v = 0"

fun links_loop ::
  "platform \<Rightarrow> string \<Rightarrow> jsval list \<Rightarrow> real \<times> string list \<Rightarrow> js_error + real \<times> string list" where
  "links_loop P pageHostname [] acc = Inr acc"
| "links_loop P pageHostname (L # Ls) (linkRiskSum, rs) =
     (case linkIsSuspicious P L pageHostname rs of
        Inl e \<Rightarrow> Inl e
      | Inr (linkScore, rs') \<Rightarrow> links_loop P pageHostname Ls (linkRiskSum + linkScore, rs'))"

definition links_check :: "platform \<Rightarrow> bool \<Rightarrow> string \<Rightarrow> jsval \<Rightarrow> verdict \<Rightarrow> js_error + verdict" where
  "links_check P trustedExact pageHostname links st =
     (if truthy links \<and> truthy (js_length links) then
        (case slice40 links of
           Inl e \<Rightarrow> Inl e
         | Inr sliced \<Rightarrow>
            (case iterate sliced of
               Inl e \<Rightarrow> Inl e
             | Inr ls \<Rightarrow>
                 (case links_loop P pageHostname ls (0, reasons st) of
                    Inl e \<Rightarrow> Inl e
                  | Inr (linkRiskSum, rs) \<Rightarrow>
                      let maxLinkContribution = (if trustedExact then 0.15 else 0.40);
                          linkContribution =
                            min maxLinkContribution (linkRiskSum / max 1 (num_length links))
                      in Inr (st\<lparr>reasons := rs,
                                 score := score st + linkContribution,
                                 suspicious := (suspicious st \<or> linkContribution \<ge> 0.3)\<rparr>))))
      else Inr st)"

subsection \<open>Text heuristics (lines 266 to 280)\<close>

definition redFlags :: "string list" where
  "redFlags =
     [''your account will be locked'', ''verify your account'', ''click here to verify'',
      ''confirm your identity'', ''payment required'', ''suspend'', ''urgent action required'']"

definition text_check :: "bool \<Rightarrow> string \<Rightarrow> verdict \<Rightarrow> verdict" where
  \<open>text_check trustedExact textSample st =
     (if textSample \<noteq> [] then
        let lower = toLowerCase textSample in
        fold (\<lambda>f st1.
                if str_includes lower f then
                  st1\<lparr>reasons := reasons st1 @ [''Suspicious page text matched: "'' @ f @ ''"''],
                      score := score st1 + (if trustedExact then 0.20 else 0.08),
                      suspicious := True\<rparr>
                else st1)
             redFlags st
      else st)\<close>

subsection \<open>Hostname checks (lines 282 to 292)\<close>

definition punycode_check :: "string \<Rightarrow> verdict \<Rightarrow> verdict" where
  "punycode_check pageHostname st =
     (if isPunycode pageHostname then
        st\<lparr>reasons := reasons st @ [''Page hostname uses punycode''],
           score := score st + 0.40,
           suspicious := True\<rparr>
      else st)"

definition ip_check :: "string \<Rightarrow> verdict \<Rightarrow> verdict" where
  "ip_check pageHostname st =
     (if isIpAddress pageHostname then
        st\<lparr>reasons := reasons st @ [''Page served from IP address''],
           score := score st + 0.40,
           suspicious := True\<rparr>
      else st)"

definition hostname_checks :: "string \<Rightarrow> verdict \<Rightarrow> verdict" where
  "hostname_checks pageHostname st = ip_check pageHostname (punycode_check pageHostname st)"

subsection \<open>Canonical and Open Graph mismatch (lines 294 to 310)\<close>

text \<open>
  In this \<^verbatim>\<open>try\<close> block only \<^verbatim>\<open>safeGetHostname\<close> can throw, before anything is changed;
  the empty \<^verbatim>\<open>catch\<close> then leaves the locals as they are.
\<close>

definition canonical_check :: "platform \<Rightarrow> jsval \<Rightarrow> bool \<Rightarrow> string \<Rightarrow> verdict \<Rightarrow> verdict" where
  "canonical_check P data trustedExact pageHostname st =
     (let canonical = or_else (get_prop data ''ogUrl'') (get_prop data ''canonical'') in
      if truthy canonical then
        (case safeGetHostname P canonical of
           Inl e \<Rightarrow> st
         | Inr canonicalHost \<Rightarrow>
             if canonicalHost \<noteq> [] \<and> pageHostname \<noteq> [] then
               let norm = normalizedDistance (strip_prefix ''www.'' canonicalHost)
                            (strip_prefix ''www.'' pageHostname)
               in
               if norm > 0.35 then
                 st\<lparr>reasons := reasons st @
                       [''Canonical/OG domain mismatch (normalized distance '' @ toFixed2 norm @
                        '')''],
                    score := score st + (if trustedExact then 0.20 else 0.12),
                    suspicious := True\<rparr>
               else if \<not> trustedExact then
                 st\<lparr>reasons := reasons st @ [''Canonical/OG domain matches page'']\<rparr>
               else st
             else st)
      else st)"

subsection \<open>Final handling (lines 312 to 323)\<close>

definition weakPatterns :: "string list" where
  "weakPatterns =
     [''hyphen'', ''subdomain'', ''depth'', ''no similarity to trusted domains detected'',
      ''multiple capitalized tokens'']"

text \<open>
  The backwards loop with \<^verbatim>\<open>splice\<close> removes every reason that one of the patterns
  matches, and keeps the order of the others.
\<close>

definition trusted_dampening :: "bool \<Rightarrow> verdict \<Rightarrow> verdict" where
  "trusted_dampening trustedExact st =
     (if trustedExact \<and> \<not> suspicious st then
        st\<lparr>reasons := filter (\<lambda>r. \<not> list_ex (\<lambda>rx. test_ci rx r) weakPatterns) (reasons st),
           score := min (score st) 0.05\<rparr>
      else st)"

definition clamp_decide :: "verdict \<Rightarrow> verdict" where
  "clamp_decide st =
     (let s = max 0 (min 1 (score st)) in
      st\<lparr>score := s, suspicious := (suspicious st \<or> s \<ge> 0.55)\<rparr>)"

subsection \<open>The function\<close>

text \<open>
  Lines 169 to 310, from the locals \<^verbatim>\<open>pageHostname\<close> and \<^verbatim>\<open>textSample\<close>: the value of
  \<^verbatim>\<open>suspicious\<close>, \<^verbatim>\<open>score\<close> and \<^verbatim>\<open>reasons\<close> at line 311, or the \<^verbatim>\<open>TypeError\<close> thrown
  outside every \<^verbatim>\<open>try\<close> by the HTTPS test, by \<^verbatim>\<open>for (const f of forms)\<close>, by
  \<^verbatim>\<open>links.slice\<close> or by \<^verbatim>\<open>linkIsSuspicious\<close>. \<open>data\<close> is neither \<^verbatim>\<open>null\<close> nor
  \<^verbatim>\<open>undefined\<close> here.
\<close>

definition run_checks ::
  "platform \<Rightarrow> string list \<Rightarrow> string list \<Rightarrow> jsval \<Rightarrow> string \<Rightarrow> string \<Rightarrow> js_error + verdict" where
  "run_checks P G TRUSTED data pageHostname textSample =
     (let url = url_of data;
          links = links_of data;
          forms = forms_of data;
          trustedExact = hostIsTrustedExact G pageHostname;
          st0 = \<lparr>suspicious = False, score = (if trustedExact then 0.02 else 0.25), reasons = []\<rparr>;
          st1 = typosquat_check TRUSTED pageHostname st0
      in
      case https_check P url trustedExact st1 of
        Inl e \<Rightarrow> Inl e
      | Inr st2 \<Rightarrow>
      (case iterate forms of
         Inl e \<Rightarrow> Inl e
       | Inr fs \<Rightarrow>
           let st3 = forms_check P trustedExact pageHostname fs st2 in
           (case links_check P trustedExact pageHostname links st3 of
              Inl e \<Rightarrow> Inl e
            | Inr st4 \<Rightarrow>
                let st5 = text_check trustedExact textSample st4;
                    st6 = hostname_checks pageHostname st5;
                    st7 = canonical_check P data trustedExact pageHostname st6
                in Inr st7)))"

text \<open>
  \<^verbatim>\<open>analyzeProfileCore(data = {}, trustedSet = null)\<close>. \<open>G\<close> is the global
  \<^verbatim>\<open>TRUSTED_REGISTERED_DOMAINS\<close> at the time of the call; \<open>trustedSet\<close> is \<open>Some T\<close> for
  a \<^verbatim>\<open>Set\<close> and \<open>None\<close> for anything else. The default \<^verbatim>\<open>{}\<close> replaces \<^verbatim>\<open>undefined\<close>
  only; on \<^verbatim>\<open>null\<close> the first read, \<^verbatim>\<open>data.username\<close>, throws. The coercions of lines 161
  to 167 are outside every \<^verbatim>\<open>try\<close>.
\<close>

definition default_data :: "jsval \<Rightarrow> jsval" where
  "default_data data0 = (case data0 of JUndefined \<Rightarrow> JObj [] | _ \<Rightarrow> data0)"

definition trusted_arg :: "string list \<Rightarrow> string list option \<Rightarrow> string list" where
  "trusted_arg G trustedSet = (case trustedSet of Some T \<Rightarrow> T | None \<Rightarrow> G)"

definition analyzeProfileCore ::
  "platform \<Rightarrow> string list \<Rightarrow> jsval \<Rightarrow> string list option \<Rightarrow> js_error + result" where
  "analyzeProfileCore P G data0 trustedSet =
     (let data = default_data data0;
          TRUSTED = trusted_arg G trustedSet
      in
      if nullish data then Inl TypeError
      else
        case username_of P data of Inl e \<Rightarrow> Inl e | Inr username \<Rightarrow>
        case displayName_of P data of Inl e \<Rightarrow> Inl e | Inr displayName \<Rightarrow>
        case pageHostname_of P data of Inl e \<Rightarrow> Inl e | Inr pageHostname \<Rightarrow>
        case textSample_of P data of Inl e \<Rightarrow> Inl e | Inr textSample \<Rightarrow>
        (case run_checks P G TRUSTED data pageHostname textSample of
           Inl e \<Rightarrow> Inl e
         | Inr st \<Rightarrow>
          let trustedExact = hostIsTrustedExact G pageHostname;
              fin = clamp_decide (trusted_dampening trustedExact st)
          in Inr \<lparr>suspicious = suspicious fin,
                  score = score fin,
                  reasons = reasons fin,
                  details =
                    \<lparr>d_username = username,
                     d_displayName = displayName,
                     d_isVerified = truthy (get_prop data ''isVerified''),
                     d_isBrand = truthy (get_prop data ''isBrand''),
                     d_pageHostname = pageHostname,
                     d_url = url_of data,
                     d_linksCount = js_length (links_of data),
                     d_formsCount = js_length (forms_of data)\<rparr>\<rparr>))"

text \<open>
  Values of the platform's built-ins at the inputs of the concrete cases below. Each
  address listed is an absolute URL, for which the constructor ignores the base; the one
  address with a space in its host is rejected by the constructor, as is here every input
  that is not listed.
\<close>

definition sample_URL :: "string \<Rightarrow> string option \<Rightarrow> URL_obj option" where
  "sample_URL s base =
     (if s = ''https://www.facebook.com/'' then
        Some \<lparr>url_hostname = ''www.facebook.com'', url_pathname = ''/''\<rparr>
      else if s = ''https://faceboook.com/'' then
        Some \<lparr>url_hostname = ''faceboook.com'', url_pathname = ''/''\<rparr>
      else if s = ''https://mybank.com/login'' then
        Some \<lparr>url_hostname = ''mybank.com'', url_pathname = ''/login''\<rparr>
      else if s = ''http://evil.example/collect'' then
        Some \<lparr>url_hostname = ''evil.example'', url_pathname = ''/collect''\<rparr>
      else if s = ''https://ok.example/'' then
        Some \<lparr>url_hostname = ''ok.example'', url_pathname = ''/''\<rparr>
      else if s = ''http://10.0.0.1/'' then
        Some \<lparr>url_hostname = ''10.0.0.1'', url_pathname = ''/''\<rparr>
      else None)"

definition sample_platform :: platform where
  "sample_platform =
     \<lparr>URL = sample_URL, NumberToString = (\<lambda>x. ''0''), StringToNumber = (\<lambda>s. None)\<rparr>"

definition DEFAULT_TRUSTED :: "string list" where
  "DEFAULT_TRUSTED = [''facebook.com'', ''tiktok.com'']"

section \<open>Auxiliary definitions for the statements and proofs\<close>

text \<open>
  What one call of \<open>linkIsSuspicious\<close> returns, and what it pushes, for a link that has a
  string.
\<close>

definition link_risk :: "platform \<Rightarrow> string \<Rightarrow> jsval \<Rightarrow> real" where
  "link_risk P pageHostname L =
     (case linkIsSuspicious P L pageHostname [] of Inr v \<Rightarrow> fst v | Inl e \<Rightarrow> 0)"

definition link_reasons :: "platform \<Rightarrow> string \<Rightarrow> jsval \<Rightarrow> string list" where
  "link_reasons P pageHostname L =
     (case linkIsSuspicious P L pageHostname [] of Inr v \<Rightarrow> snd v | Inl e \<Rightarrow> [])"

text \<open>The value has a string: \<open>toStr\<close> does not throw on it.\<close>

definition has_string :: "platform \<Rightarrow> jsval \<Rightarrow> bool" where
  "has_string P v = (case toStr P v of Inr s \<Rightarrow> True | Inl e \<Rightarrow> False)"

text \<open>A link that is assessed without an exception, with risk 0 and no reason.\<close>

definition riskless :: "platform \<Rightarrow> string \<Rightarrow> jsval \<Rightarrow> bool" where
  "riskless P pageHostname L =
     (case linkIsSuspicious P L pageHostname [] of
        Inr v \<Rightarrow> fst v = 0 \<and> snd v = []
      | Inl e \<Rightarrow> False)"

text \<open>
  A check that only adds to the score, never clears the flag and only appends reasons.
\<close>

definition grows :: "verdict \<Rightarrow> verdict \<Rightarrow> bool" where
  "grows st st' =
     (score st \<le> score st' \<and> (suspicious st \<longrightarrow> suspicious st') \<and>
      prefix (reasons st) (reasons st'))"

text \<open>The locals at line 172, before the first check.\<close>

definition initial :: "bool \<Rightarrow> verdict" where
  "initial trustedExact =
     \<lparr>suspicious = False, score = (if trustedExact then 0.02 else 0.25), reasons = []\<rparr>"

text \<open>
  The checks of \<open>run_checks\<close> before the links (lines 174 to 251), and those after them
  (lines 266 to 310).
\<close>

definition pre_links ::
  "platform \<Rightarrow> string list \<Rightarrow> string list \<Rightarrow> jsval \<Rightarrow> string \<Rightarrow> js_error + verdict" where
  "pre_links P G TRUSTED data pageHostname =
     (let trustedExact = hostIsTrustedExact G pageHostname in
      case https_check P (url_of data) trustedExact
             (typosquat_check TRUSTED pageHostname (initial trustedExact)) of
        Inl e \<Rightarrow> Inl e
      | Inr st2 \<Rightarrow>
          (case iterate (forms_of data) of
             Inl e \<Rightarrow> Inl e
           | Inr fs \<Rightarrow> Inr (forms_check P trustedExact pageHostname fs st2)))"

definition post_links ::
  "platform \<Rightarrow> string list \<Rightarrow> jsval \<Rightarrow> string \<Rightarrow> string \<Rightarrow> verdict \<Rightarrow> verdict" where
  "post_links P G data pageHostname textSample st4 =
     (let trustedExact = hostIsTrustedExact G pageHostname
      in canonical_check P data trustedExact pageHostname
           (hostname_checks pageHostname (text_check trustedExact textSample st4)))"

text \<open>Lines 312 to 323: the final handling of the three locals.\<close>

definition final_handling :: "string list \<Rightarrow> string \<Rightarrow> verdict \<Rightarrow> verdict" where
  "final_handling G pageHostname st =
     clamp_decide (trusted_dampening (hostIsTrustedExact G pageHostname) st)"

text \<open>
  Lines 312 to 336: the object returned, from the locals \<^verbatim>\<open>username\<close>, \<^verbatim>\<open>displayName\<close>
  and \<^verbatim>\<open>pageHostname\<close> and from the value of the checks.
\<close>

definition result_of :: "string list \<Rightarrow> jsval \<Rightarrow> string \<Rightarrow> string \<Rightarrow> string \<Rightarrow> verdict \<Rightarrow> result" where
  "result_of G data username displayName pageHostname st =
     \<lparr>suspicious = suspicious (final_handling G pageHostname st),
      score = score (final_handling G pageHostname st),
      reasons = reasons (final_handling G pageHostname st),
      details =
        \<lparr>d_username = username,
         d_displayName = displayName,
         d_isVerified = truthy (get_prop data ''isVerified''),
         d_isBrand = truthy (get_prop data ''isBrand''),
         d_pageHostname = pageHostname,
         d_url = url_of data,
         d_linksCount = js_length (links_of data),
         d_formsCount = js_length (forms_of data)\<rparr>\<rparr>"

text \<open>
  The first links of a payload are assessed without an exception, with risk 0 and no reason
  (when the page hostname itself cannot be read nothing is assessed).
\<close>

definition riskless_links :: "platform \<Rightarrow> jsval \<Rightarrow> jsval list \<Rightarrow> bool" where
  "riskless_links P data xs =
     (case pageHostname_of P data of
        Inl e \<Rightarrow> True
      | Inr h \<Rightarrow> list_all (riskless P h) xs)"

text \<open>A payload object whose \<^verbatim>\<open>links\<close> is the array \<open>ls\<close>; \<open>rest\<close> holds its other properties.\<close>

definition with_links :: "jsval list \<Rightarrow> (string \<times> jsval) list \<Rightarrow> jsval" where
  "with_links ls rest = JObj ((''links'', JArr ls) # rest)"

text \<open>The result with \<^verbatim>\<open>details.linksCount\<close> replaced.\<close>

definition set_linksCount :: "jsval \<Rightarrow> result \<Rightarrow> result" where
  "set_linksCount n r = r\<lparr>details := (details r)\<lparr>d_linksCount := n\<rparr>\<rparr>"

text \<open>The flag, the score and the number of links of a result.\<close>

definition outcome :: "js_error + result \<Rightarrow> js_error + bool \<times> real \<times> jsval" where
  "outcome res = map_sum id (\<lambda>r. (suspicious r, score r, d_linksCount (details r))) res"

subsection \<open>Concrete payloads\<close>

definition trusted_page :: jsval where
  "trusted_page =
     JObj [(''url'', JStr ''https://www.facebook.com/''), (''hostname'', JStr ''www.facebook.com'')]"

definition typo_page :: jsval where
  "typo_page =
     JObj [(''url'', JStr ''https://faceboook.com/''), (''hostname'', JStr ''faceboook.com'')]"

definition typo_page_reasons :: "string list" where
  \<open>typo_page_reasons =
     [''Domain SLD "faceboook" closely resembles trusted SLD "facebook" (distance 0.11). Treated as typosquat (faceboook.com ~ facebook.com).'',
      ''Domain SLD "faceboook" contains brand-like token "faceb" (looks like facebook)'',
      ''Domain SLD "faceboook" contains brand-like token "faceboook" (looks like facebook)'']\<close>

definition bank_page :: "(string \<times> jsval) list" where
  "bank_page = [(''url'', JStr ''https://mybank.com/login''), (''hostname'', JStr ''mybank.com'')]"

definition evil_form :: jsval where
  "evil_form = JObj [(''hasPassword'', JBool True), (''action'', JStr ''http://evil.example/collect'')]"

definition links45 :: "jsval list" where
  "links45 = replicate 40 (JStr ''https://ok.example/'') @ replicate 5 (JStr ''http://10.0.0.1/'')"

text \<open>Forty links that the URL constructor rejects (0.05 each), then five to an IP address.\<close>

definition links45_low :: "jsval list" where
  "links45_low = replicate 40 (JStr ''http://a b/'') @ replicate 5 (JStr ''http://10.0.0.1/'')"

text \<open>A trusted page over HTTPS with three forms that have inputs and no password field.\<close>

definition plain_form :: jsval where
  "plain_form =
     JObj [(''action'', JStr ''https://www.facebook.com/''), (''inputCount'', JNum 2),
           (''hasPassword'', JBool False)]"

definition trusted_page_forms :: jsval where
  "trusted_page_forms =
     JObj [(''url'', JStr ''https://www.facebook.com/''), (''hostname'', JStr ''www.facebook.com''),
           (''forms'', JArr [plain_form, plain_form, plain_form])]"


definition dotted_page :: jsval where
  "dotted_page =
     JObj [(''url'', JStr ''mybank.com.''),
           (''forms'', JArr [JObj [(''hasPassword'', JBool True), (''action'', JStr ''evil.com.'')]])]"


section \<open>Properties\<close>

lemma only_TypeError: "(e :: js_error) = TypeError"
  by (cases e) simp

lemma grows_refl: "grows st st"
  by (simp add: grows_def)

lemma grows_trans: "grows a b \<Longrightarrow> grows b c \<Longrightarrow> grows a c"
  by (auto simp: grows_def intro: prefix_order.trans)

lemma fold_grows:
  assumes "\<And>x s. grows s (f x s)"
  shows "grows st (fold f xs st)"
proof (induction xs arbitrary: st)
  case Nil
  show ?case by (simp add: grows_refl)
next
  case (Cons x xs)
  have "grows st (f x st)" by (rule assms)
  moreover have "grows (f x st) (fold f xs (f x st))" by (rule Cons.IH)
  ultimately show ?case by (auto intro: grows_trans)
qed

lemma linkIsSuspicious_throws:
  "toStr P L = Inl e \<Longrightarrow> linkIsSuspicious P L h rs = Inl e"
  by (simp add: linkIsSuspicious_def)

lemma linkIsSuspicious_facts:
  assumes str: "toStr P L = Inr s"
  shows "linkIsSuspicious P L h rs = Inr (link_risk P h L, rs @ link_reasons P h L) \<and>
   0 \<le> link_risk P h L \<and> link_risk P h L \<le> 0.2 \<and>
   (link_risk P h L = 0 \<longrightarrow> link_reasons P h L = [])"
proof -
  let ?base = "Some (''https://'' @ (if h \<noteq> [] then h else ''example.com''))"
  note defs = link_risk_def link_reasons_def linkIsSuspicious_def Let_def
  show ?thesis
  proof (cases "URL P s ?base")
    case None
    with str show ?thesis
      by (simp add: defs split del: if_split)
  next
    case (Some u)
    let ?host = "toLowerCase (url_hostname u)"
    let ?path = "toLowerCase (url_pathname u)"
    consider (empty) "?host = []"
      | (ip) "?host \<noteq> []" "isIpAddress ?host"
      | (puny) "?host \<noteq> []" "\<not> isIpAddress ?host" "isPunycode ?host"
      | (tld) "?host \<noteq> []" "\<not> isIpAddress ?host" "\<not> isPunycode ?host"
          "getTld ?host \<in> set RISKY_TLDS"
      | (path) p where "?host \<noteq> []" "\<not> isIpAddress ?host" "\<not> isPunycode ?host"
          "getTld ?host \<notin> set RISKY_TLDS"
          "find (\<lambda>p. str_includes ?path p) suspiciousPathPatterns = Some p"
      | (brand) t where "?host \<noteq> []" "\<not> isIpAddress ?host" "\<not> isPunycode ?host"
          "getTld ?host \<notin> set RISKY_TLDS"
          "find (\<lambda>p. str_includes ?path p) suspiciousPathPatterns = None"
          "?host \<noteq> h" "find (\<lambda>t. str_includes ?host t) brandTokens = Some t"
      | (nobrand) "?host \<noteq> []" "\<not> isIpAddress ?host" "\<not> isPunycode ?host"
          "getTld ?host \<notin> set RISKY_TLDS"
          "find (\<lambda>p. str_includes ?path p) suspiciousPathPatterns = None"
          "?host \<noteq> h" "find (\<lambda>t. str_includes ?host t) brandTokens = None"
      | (same) "?host \<noteq> []" "\<not> isIpAddress ?host" "\<not> isPunycode ?host"
          "getTld ?host \<notin> set RISKY_TLDS"
          "find (\<lambda>p. str_includes ?path p) suspiciousPathPatterns = None"
          "?host = h"
      by (cases "find (\<lambda>p. str_includes ?path p) suspiciousPathPatterns";
          cases "find (\<lambda>t. str_includes ?host t) brandTokens") blast+
    then show ?thesis
    proof cases
      case empty
      with Some str show ?thesis by (simp add: defs split del: if_split)
    next
      case ip
      with Some str show ?thesis by (simp add: defs split del: if_split)
    next
      case puny
      with Some str show ?thesis by (simp add: defs split del: if_split)
    next
      case tld
      with Some str show ?thesis by (simp add: defs split del: if_split)
    next
      case path
      with Some str show ?thesis by (simp add: defs split del: if_split)
    next
      case brand
      with Some str show ?thesis by (simp add: defs split del: if_split)
    next
      case nobrand
      with Some str show ?thesis by (simp add: defs split del: if_split)
    next
      case same
      with Some str show ?thesis by (simp add: defs split del: if_split)
    qed
  qed
qed

lemma has_string_iff: "has_string P v \<longleftrightarrow> (\<exists>s. toStr P v = Inr s)"
  by (cases "toStr P v") (simp_all add: has_string_def)

lemma linkIsSuspicious_shape:
  "has_string P L \<Longrightarrow>
   linkIsSuspicious P L h rs = Inr (link_risk P h L, rs @ link_reasons P h L)"
  using linkIsSuspicious_facts by (auto simp: has_string_iff)

lemma linkIsSuspicious_no_string:
  "\<not> has_string P L \<Longrightarrow> linkIsSuspicious P L h rs = Inl TypeError"
  by (cases "toStr P L") (simp_all add: has_string_def linkIsSuspicious_throws only_TypeError)

lemma link_risk_range: "0 \<le> link_risk P h L \<and> link_risk P h L \<le> 0.2"
proof (cases "toStr P L")
  case (Inl e)
  then show ?thesis by (simp add: link_risk_def linkIsSuspicious_throws)
next
  case (Inr s)
  then show ?thesis using linkIsSuspicious_facts by blast
qed

lemma riskless_iff:
  "riskless P h L \<longleftrightarrow> has_string P L \<and> link_risk P h L = 0 \<and> link_reasons P h L = []"
proof (cases "toStr P L")
  case (Inl e)
  then show ?thesis
    by (simp add: riskless_def has_string_def linkIsSuspicious_throws)
next
  case (Inr s)
  then have "has_string P L" by (simp add: has_string_def)
  then show ?thesis
    by (simp add: riskless_def linkIsSuspicious_shape[of P L h "[]"])
qed

lemma links_loop_closed:
  "list_all (has_string P) ls \<Longrightarrow>
   links_loop P h ls (s, rs) =
     Inr (s + sum_list (map (link_risk P h) ls), rs @ concat (map (link_reasons P h) ls))"
  by (induction ls arbitrary: s rs) (simp_all add: linkIsSuspicious_shape add.assoc)

lemma links_loop_throws:
  "\<not> list_all (has_string P) ls \<Longrightarrow> links_loop P h ls (s, rs) = Inl TypeError"
proof (induction ls arbitrary: s rs)
  case Nil
  then show ?case by simp
next
  case (Cons L ls)
  show ?case
  proof (cases "has_string P L")
    case True
    with Cons show ?thesis by (simp add: linkIsSuspicious_shape)
  next
    case False
    then show ?thesis by (simp add: linkIsSuspicious_no_string)
  qed
qed

lemma brand_keyword_grows: "grows st (brand_keyword T reg sld brand kw st)"
  by (simp add: brand_keyword_def grows_def)

lemma brand_check_grows: "grows st (brand_check T reg sld st)"
  unfolding brand_check_def
  by (rule fold_grows) (auto intro: fold_grows brand_keyword_grows)

lemma grows_flag:
  "grows st (st\<lparr>reasons := reasons st @ rs, suspicious := True, score := max (score st) x\<rparr>)"
  by (simp add: grows_def)

lemma grows_note: "grows st (st\<lparr>reasons := reasons st @ rs\<rparr>)"
  by (simp add: grows_def)

lemma typosquat_check_grows: "grows st (typosquat_check T h st)"
  unfolding typosquat_check_def Let_def
  by (auto simp only: split: if_split
           intro!: grows_trans[OF _ brand_check_grows] grows_flag grows_note)

lemma https_check_grows:
  "https_check P url trustedExact st = Inr st' \<Longrightarrow> \<not> trustedExact \<or> suspicious st \<Longrightarrow>
   grows st st'"
  by (auto simp: https_check_def grows_def Let_def split: if_splits sum.splits)

lemma form_step_grows: "grows st (form_step P trustedExact h f st)"
proof (cases "form_try P trustedExact h f st")
  case (Inl e)
  then show ?thesis by (simp add: form_step_def grows_def)
next
  case (Inr st')
  then have "grows st st'"
    by (auto simp: form_try_def grows_def split: if_splits sum.splits)
  with Inr show ?thesis by (simp add: form_step_def)
qed

lemma forms_check_grows: "grows st (forms_check P trustedExact h fs st)"
  unfolding forms_check_def by (rule fold_grows) (rule form_step_grows)

lemma sum_link_risk_nonneg: "0 \<le> sum_list (map (link_risk P h) ls)"
  by (induction ls) (simp_all add: link_risk_range)

lemma links_loop_Inr:
  assumes "links_loop P h ls (s, rs) = Inr (S, rs')"
  shows "list_all (has_string P) ls \<and> S = s + sum_list (map (link_risk P h) ls) \<and>
         rs' = rs @ concat (map (link_reasons P h) ls)"
proof (cases "list_all (has_string P) ls")
  case True
  with assms show ?thesis by (simp add: links_loop_closed)
next
  case False
  with assms show ?thesis by (simp add: links_loop_throws)
qed

lemma links_check_grows:
  assumes "links_check P trustedExact h links st = Inr st'"
  shows "grows st st'"
proof (cases "truthy links \<and> truthy (js_length links)")
  case False
  with assms show ?thesis by (auto simp: links_check_def grows_refl)
next
  case True
  from assms True obtain sliced where sl: "slice40 links = Inr sliced"
    by (cases "slice40 links") (simp_all add: links_check_def)
  from assms True sl obtain ls where it: "iterate sliced = Inr ls"
    by (cases "iterate sliced") (simp_all add: links_check_def)
  from assms True sl it obtain S rs' where lp: "links_loop P h ls (0, reasons st) = Inr (S, rs')"
    by (cases "links_loop P h ls (0, reasons st)") (auto simp: links_check_def)
  from links_loop_Inr[OF lp] have S: "S = sum_list (map (link_risk P h) ls)"
    and rs': "rs' = reasons st @ concat (map (link_reasons P h) ls)"
    by simp_all
  have nn: "0 \<le> S / max 1 (num_length links)"
    unfolding S by (simp add: sum_link_risk_nonneg)
  from assms True sl it lp nn show ?thesis
    by (auto simp: links_check_def Let_def grows_def rs')
qed

lemma text_check_grows: "grows st (text_check trustedExact txt st)"
  unfolding text_check_def Let_def
  by (auto intro!: fold_grows simp: grows_refl) (simp_all add: grows_def)

lemma hostname_checks_grows: "grows st (hostname_checks h st)"
  by (simp add: hostname_checks_def ip_check_def punycode_check_def grows_def)

lemma canonical_check_grows: "grows st (canonical_check P data trustedExact h st)"
  by (simp add: canonical_check_def grows_def Let_def split: sum.splits)

lemma post_links_grows: "grows st (post_links P G data h t st)"
  unfolding post_links_def Let_def
  by (blast intro: grows_trans text_check_grows hostname_checks_grows canonical_check_grows)

lemma pre_links_grows:
  assumes "pre_links P G T data h = Inr st3"
    and "\<not> hostIsTrustedExact G h \<or> suspicious (typosquat_check T h (initial (hostIsTrustedExact G h)))"
  shows "grows (typosquat_check T h (initial (hostIsTrustedExact G h))) st3"
proof -
  let ?te = "hostIsTrustedExact G h"
  let ?st1 = "typosquat_check T h (initial ?te)"
  from assms(1) obtain st2 fs where
    st2: "https_check P (url_of data) ?te ?st1 = Inr st2" and
    st3: "st3 = forms_check P ?te h fs st2"
    by (auto simp: pre_links_def Let_def split: sum.splits)
  have "grows ?st1 st2" using st2 assms(2) by (rule https_check_grows)
  moreover have "grows st2 st3" unfolding st3 by (rule forms_check_grows)
  ultimately show ?thesis by (rule grows_trans)
qed

lemma run_checks_split:
  "run_checks P G T data h t =
     (case pre_links P G T data h of
        Inl e \<Rightarrow> Inl e
      | Inr st3 \<Rightarrow>
          (case links_check P (hostIsTrustedExact G h) h (links_of data) st3 of
             Inl e \<Rightarrow> Inl e
           | Inr st4 \<Rightarrow> Inr (post_links P G data h t st4)))"
  by (simp add: run_checks_def pre_links_def post_links_def initial_def Let_def
        split: sum.splits)

lemma run_checks_grows:
  assumes rc: "run_checks P G T data h t = Inr st"
    and ok: "\<not> hostIsTrustedExact G h \<or> suspicious (typosquat_check T h (initial (hostIsTrustedExact G h)))"
  shows "grows (typosquat_check T h (initial (hostIsTrustedExact G h))) st"
proof -
  from rc obtain st3 st4 where
    a: "pre_links P G T data h = Inr st3" and
    b: "links_check P (hostIsTrustedExact G h) h (links_of data) st3 = Inr st4" and
    c: "st = post_links P G data h t st4"
    by (auto simp: run_checks_split split: sum.splits)
  have "grows (typosquat_check T h (initial (hostIsTrustedExact G h))) st3"
    using a ok by (rule pre_links_grows)
  moreover have "grows st3 st4" using b by (rule links_check_grows)
  moreover have "grows st4 st" unfolding c by (rule post_links_grows)
  ultimately show ?thesis by (blast intro: grows_trans)
qed

lemma clamp_decide_bounds: "0 \<le> score (clamp_decide st) \<and> score (clamp_decide st) \<le> 1"
  by (simp add: clamp_decide_def Let_def)

lemma analyze_Inr:
  assumes "analyzeProfileCore P G data trustedSet = Inr r"
  obtains u d h t st where
    "\<not> nullish (default_data data)"
    "username_of P (default_data data) = Inr u" "displayName_of P (default_data data) = Inr d"
    "pageHostname_of P (default_data data) = Inr h" "textSample_of P (default_data data) = Inr t"
    "run_checks P G (trusted_arg G trustedSet) (default_data data) h t = Inr st"
    "suspicious r = suspicious (final_handling G h st)"
    "score r = score (final_handling G h st)"
    "reasons r = reasons (final_handling G h st)"
    "d_pageHostname (details r) = h"
  using assms unfolding analyzeProfileCore_def Let_def final_handling_def
  by (auto split: if_splits sum.splits)

lemma get_prop_default [simp]: "get_prop (default_data d) k = get_prop d k"
  by (cases d) (simp_all add: default_data_def)

lemma locals_default [simp]:
  "username_of P (default_data d) = username_of P d"
  "displayName_of P (default_data d) = displayName_of P d"
  "pageHostname_of P (default_data d) = pageHostname_of P d"
  "textSample_of P (default_data d) = textSample_of P d"
  unfolding username_of_def usernameRaw_of_def displayName_of_def pageHostname_of_def
    url_of_def textSample_of_def get_prop_default
  by (rule refl)+

lemma analyze_unfold:
  "analyzeProfileCore P G data trustedSet =
     (if nullish (default_data data) then Inl TypeError
      else
        case username_of P data of Inl e \<Rightarrow> Inl e | Inr u \<Rightarrow>
        case displayName_of P data of Inl e \<Rightarrow> Inl e | Inr d \<Rightarrow>
        case pageHostname_of P data of Inl e \<Rightarrow> Inl e | Inr h \<Rightarrow>
        case textSample_of P data of Inl e \<Rightarrow> Inl e | Inr t \<Rightarrow>
        (case run_checks P G (trusted_arg G trustedSet) (default_data data) h t of
           Inl e \<Rightarrow> Inl e
         | Inr st \<Rightarrow> Inr (result_of G (default_data data) u d h st)))"
  unfolding analyzeProfileCore_def result_of_def final_handling_def Let_def locals_default
  by (rule refl)

text \<open>
  Claim C1. Whatever the payload, the global trusted set and the set passed in, a result that
  \<open>analyzeProfileCore\<close> returns has its score between 0 and 1.
\<close>

theorem score_in_unit_interval:
  "analyzeProfileCore P G data trustedSet = Inr r \<Longrightarrow> 0 \<le> score r \<and> score r \<le> 1"
  by (erule analyze_Inr) (simp add: final_handling_def clamp_decide_bounds)

lemma trusted_page_eval:
  "analyzeProfileCore sample_platform DEFAULT_TRUSTED trusted_page (Some DEFAULT_TRUSTED) =
     Inr \<lparr>suspicious = False, score = 0.02, reasons = [''Exact registered domain is trusted''],
          details = \<lparr>d_username = [], d_displayName = [], d_isVerified = False,
             d_isBrand = False, d_pageHostname = ''www.facebook.com'',
             d_url = JStr ''https://www.facebook.com/'',
             d_linksCount = JNum 0, d_formsCount = JNum 0\<rparr>\<rparr>"
  by code_simp

theorem score_in_unit_interval_witness:
  "\<exists>r. analyzeProfileCore sample_platform DEFAULT_TRUSTED trusted_page (Some DEFAULT_TRUSTED) = Inr r
       \<and> 0 \<le> score r \<and> score r \<le> 1"
  using score_in_unit_interval[OF trusted_page_eval] trusted_page_eval by blast

text \<open>
  Claim C4 says that \<open>analyzeProfileCore\<close> never throws. It throws on \<^verbatim>\<open>null\<close>, where
  \<^verbatim>\<open>data.username\<close> is the first read; on a payload whose \<^verbatim>\<open>formList\<close> is the number 5,
  where \<^verbatim>\<open>for (const f of forms)\<close> finds nothing to iterate; and on a payload whose
  \<^verbatim>\<open>linkList\<close> is an object with a \<^verbatim>\<open>length\<close>, where \<^verbatim>\<open>links.slice\<close> is not a function.
\<close>

theorem analyze_throws_on_bad_input:
  "analyzeProfileCore P G JNull trustedSet = Inl TypeError \<and>
   analyzeProfileCore P G (JObj [(''formList'', JNum 5)]) trustedSet = Inl TypeError \<and>
   analyzeProfileCore P G (JObj [(''linkList'', JObj [(''length'', JNum 1)])]) trustedSet
     = Inl TypeError"
  by (simp add: analyzeProfileCore_def default_data_def username_of_def usernameRaw_of_def
        displayName_of_def normalizeText_def pageHostname_of_def url_of_def safeGetHostname_def
        textSample_of_def or_else_def run_checks_def https_check_def forms_of_def links_of_def
        links_check_def forms_check_def Let_def)

lemma in_split_on:
  "x \<in> set s \<Longrightarrow> x = c \<or> (\<exists>g \<in> set (split_on c s). x \<in> set g)"
  by (induction s) (auto split: list.splits)

lemma punycode_not_ip: "\<not> (isPunycode h \<and> isIpAddress h)"
proof
  assume a: "isPunycode h \<and> isIpAddress h"
  then have "CHR ''x'' \<in> set h"
    by (auto simp: isPunycode_def str_includes_def sublist_def)
  then obtain g where g: "g \<in> set (split_on CHR ''.'' h)" "CHR ''x'' \<in> set g"
    using in_split_on[of "CHR ''x''" h "CHR ''.''"] by auto
  from a g(1) have "list_all is_digit g"
    by (auto simp: isIpAddress_def Let_def list_all_iff)
  with g(2) have "is_digit CHR ''x''" by (auto simp: list_all_iff)
  then show False by (simp add: is_digit_def)
qed

text \<open>
  Claim C9 says that some page hostname makes both the punycode check and the IP address
  check fire. There is none: a dotted quad has digits and dots only, and \<^verbatim>\<open>xn--\<close> has an x.
\<close>

theorem no_hostname_is_both_counterexample: "\<not> (\<exists>h. isPunycode h \<and> isIpAddress h)"
  using punycode_not_ip by blast

text \<open>
  Claim C9, amended. The hostname step is the punycode check followed by the IP address
  check, two conditionals of which neither looks at the other; each adds 0.40 to the score
  and sets the flag when it fires; and no hostname makes both fire.
\<close>

theorem hostname_checks_separate:
  "hostname_checks h st = ip_check h (punycode_check h st) \<and>
   score (hostname_checks h st) =
     score st + (if isPunycode h then 0.40 else 0) + (if isIpAddress h then 0.40 else 0) \<and>
   suspicious (hostname_checks h st) = (suspicious st \<or> isPunycode h \<or> isIpAddress h) \<and>
   \<not> (isPunycode h \<and> isIpAddress h)"
  using punycode_not_ip[of h]
  by (auto simp: hostname_checks_def ip_check_def punycode_check_def)

lemma ip_host_eval: "isIpAddress ''192.168.0.1'' \<and> \<not> isPunycode ''192.168.0.1''"
  by code_simp

theorem hostname_checks_separate_witness:
  "isIpAddress ''192.168.0.1'' \<and> \<not> isPunycode ''192.168.0.1'' \<and>
   score (hostname_checks ''192.168.0.1'' (initial False)) = 0.65 \<and>
   suspicious (hostname_checks ''192.168.0.1'' (initial False))"
  using hostname_checks_separate[of "''192.168.0.1''" "initial False", THEN conjunct2] ip_host_eval
  by (simp add: initial_def)

lemma trusted_dampening_skip:
  "\<not> trustedExact \<or> suspicious st \<Longrightarrow> trusted_dampening trustedExact st = st"
  by (auto simp: trusted_dampening_def)

text \<open>
  Claim C10. When the page is not exactly trusted (\<open>hostIsTrustedExact\<close> is false on the page
  hostname), the score of a returned result is at least 0.25.
\<close>

theorem untrusted_score_at_least_base:
  assumes "pageHostname_of P data = Inr h"
    and "\<not> hostIsTrustedExact G h"
    and "analyzeProfileCore P G data trustedSet = Inr r"
  shows "0.25 \<le> score r"
proof -
  from assms(3) obtain h' t st where
    h': "pageHostname_of P (default_data data) = Inr h'" and
    rc: "run_checks P G (trusted_arg G trustedSet) (default_data data) h' t = Inr st" and
    sc: "score r = score (final_handling G h' st)"
    by (rule analyze_Inr)
  from h' assms(1) have hh: "h' = h" by simp
  let ?st1 = "typosquat_check (trusted_arg G trustedSet) h (initial (hostIsTrustedExact G h))"
  have "grows ?st1 st"
    using rc[unfolded hh] by (rule run_checks_grows) (simp add: assms(2))
  moreover have "grows (initial (hostIsTrustedExact G h)) ?st1"
    by (rule typosquat_check_grows)
  ultimately have "score (initial (hostIsTrustedExact G h)) \<le> score st"
    by (auto simp: grows_def)
  then have "0.25 \<le> score st" using assms(2) by (simp add: initial_def)
  then show ?thesis
    using assms(2)
    by (simp add: sc hh final_handling_def trusted_dampening_skip clamp_decide_def Let_def)
qed

lemma bank_page_eval:
  "analyzeProfileCore sample_platform DEFAULT_TRUSTED (JObj bank_page) (Some DEFAULT_TRUSTED) =
     Inr \<lparr>suspicious = False, score = 0.25,
          reasons = [''No similarity to trusted domains detected''],
          details = \<lparr>d_username = [], d_displayName = [], d_isVerified = False,
             d_isBrand = False, d_pageHostname = ''mybank.com'',
             d_url = JStr ''https://mybank.com/login'',
             d_linksCount = JNum 0, d_formsCount = JNum 0\<rparr>\<rparr>"
  by code_simp

lemma bank_page_host:
  "pageHostname_of sample_platform (JObj bank_page) = Inr ''mybank.com''"
  by code_simp

lemma bank_page_untrusted: "\<not> hostIsTrustedExact DEFAULT_TRUSTED ''mybank.com''"
  by code_simp

theorem untrusted_score_at_least_base_witness:
  "pageHostname_of sample_platform (JObj bank_page) = Inr ''mybank.com'' \<and>
   \<not> hostIsTrustedExact DEFAULT_TRUSTED ''mybank.com'' \<and>
   (\<exists>r. analyzeProfileCore sample_platform DEFAULT_TRUSTED (JObj bank_page) (Some DEFAULT_TRUSTED)
          = Inr r \<and> 0.25 \<le> score r)"
  using untrusted_score_at_least_base[OF bank_page_host bank_page_untrusted bank_page_eval]
    bank_page_host bank_page_untrusted bank_page_eval by blast

text \<open>
  Claim C5, amended. On a string that starts with \<^verbatim>\<open>http://\<close> or \<^verbatim>\<open>https://\<close> (in any
  case) and that the URL constructor rejects, \<open>safeGetHostname\<close> returns the whole input in
  lower case, not cut at a slash. On the empty string, \<^verbatim>\<open>undefined\<close> and \<^verbatim>\<open>null\<close> it returns
  the empty string.
\<close>

theorem safeGetHostname_fallback:
  "(test_http_scheme s \<longrightarrow> URL P s None = None \<longrightarrow>
      safeGetHostname P (JStr s) = Inr (toLowerCase s)) \<and>
   safeGetHostname P (JStr []) = Inr [] \<and>
   safeGetHostname P JUndefined = Inr [] \<and>
   safeGetHostname P JNull = Inr []"
proof -
  have "test_http_scheme s \<Longrightarrow> s \<noteq> []"
    by (auto simp: test_http_scheme_def toLowerCase_def)
  then show ?thesis
    by (auto simp: safeGetHostname_def parse_hostname_def Let_def)
qed

lemma spaced_url_eval:
  "test_http_scheme ''http://a b/c'' \<and> URL sample_platform ''http://a b/c'' None = None \<and>
   toLowerCase ''http://a b/c'' = ''http://a b/c''"
  by code_simp

theorem safeGetHostname_fallback_witness:
  "test_http_scheme ''http://a b/c'' \<and> URL sample_platform ''http://a b/c'' None = None \<and>
   safeGetHostname sample_platform (JStr ''http://a b/c'') = Inr ''http://a b/c''"
  using safeGetHostname_fallback[of "''http://a b/c''" sample_platform] spaced_url_eval
  by simp

text \<open>
  Claim C5 says that on a parse failure \<open>safeGetHostname\<close> returns the lower-cased input up
  to its first slash. The constructor rejects a host with a space: for \<^verbatim>\<open>http://a b/c\<close> the
  function returns the whole input, where the claim gives \<^verbatim>\<open>http:\<close>; for \<^verbatim>\<open>a b/c\<close> it
  returns the text with the scheme it had put in front, where the claim gives \<^verbatim>\<open>a b\<close>.
\<close>

theorem safeGetHostname_not_truncated_counterexample:
  "URL sample_platform ''http://a b/c'' None = None \<and>
   safeGetHostname sample_platform (JStr ''http://a b/c'') = Inr ''http://a b/c'' \<and>
   takeWhile (\<lambda>c. c \<noteq> CHR ''/'') (toLowerCase ''http://a b/c'') = ''http:'' \<and>
   URL sample_platform ''https://a b/c'' None = None \<and>
   safeGetHostname sample_platform (JStr ''a b/c'') = Inr ''https://a b/c'' \<and>
   takeWhile (\<lambda>c. c \<noteq> CHR ''/'') (toLowerCase ''a b/c'') = ''a b''"
  by code_simp

text \<open>
  Claim C8 at a page that the claim covers and the code misses. The page hostname is
  \<^verbatim>\<open>mybank.com.\<close>, whose registered domain is \<^verbatim>\<open>mybank.com\<close>; the password form posts to
  \<^verbatim>\<open>evil.com.\<close>, which differs from the page hostname and does not contain the registered
  domain. The form check compares with \<^verbatim>\<open>pageHostname.split('.').slice(-2).join('.')\<close>,
  here \<^verbatim>\<open>com.\<close>, finds it inside the action host and adds nothing: the score is
  0.25 + 0.20 and the flag is false.
\<close>

theorem external_login_form_missed:
  "pageHostname_of sample_platform dotted_page = Inr ''mybank.com.'' \<and>
   getRegisteredDomain ''mybank.com.'' = ''mybank.com'' \<and>
   safeGetHostname sample_platform (JStr ''evil.com.'') = Inr ''evil.com.'' \<and>
   \<not> str_includes ''evil.com.'' ''mybank.com'' \<and>
   map_sum id (\<lambda>r. (suspicious r, score r, reasons r))
     (analyzeProfileCore sample_platform DEFAULT_TRUSTED dotted_page (Some DEFAULT_TRUSTED)) =
   Inr (False, 0.45,
        [''No similarity to trusted domains detected'', ''Page not served over HTTPS''])"
  by code_simp

lemma split_on_Cons: "\<exists>p ps. split_on c s = p # ps"
  by (induction s) (auto split: list.splits)

lemma join_Cons_Cons: "join sep ((x # p) # ps) = x # join sep (p # ps)"
  by (cases ps) simp_all

lemma join_split_on: "join [c] (split_on c s) = s"
proof (induction s)
  case Nil
  show ?case by simp
next
  case (Cons x xs)
  obtain p ps where sp: "split_on c xs = p # ps" using split_on_Cons by blast
  with Cons show ?case by (auto simp: join_Cons_Cons)
qed

lemma inline_registered_domain:
  assumes "[] \<notin> set (split_on CHR ''.'' h)"
  shows "join ''.'' (slice_last2 (split_on CHR ''.'' h)) = getRegisteredDomain h"
proof -
  let ?parts = "split_on CHR ''.'' h"
  from assms have lab: "getLabels h = ?parts"
    by (auto simp: getLabels_def filter_id_conv)
  show ?thesis
  proof (cases "2 \<le> length ?parts")
    case True
    then show ?thesis by (simp add: getRegisteredDomain_def lab Let_def)
  next
    case False
    obtain p ps where sp: "?parts = p # ps" using split_on_Cons by blast
    with False have ps: "ps = []" by (cases ps) simp_all
    have "join ''.'' ?parts = h" by (rule join_split_on)
    with sp ps have "p = h" by simp
    with False sp ps show ?thesis
      by (simp add: getRegisteredDomain_def lab Let_def slice_last2_def)
  qed
qed

text \<open>
  On a page hostname without an empty label (no leading, trailing or doubled dot) the text the
  form check compares with is the registered domain, and the check flags an external login
  form as such.
\<close>

lemma form_step_external_login:
  assumes "truthy (get_prop f ''hasPassword'')" and "truthy (get_prop f ''action'')"
    and "safeGetHostname P (get_prop f ''action'') = Inr actionHost"
    and "actionHost \<noteq> []" and "actionHost \<noteq> h"
    and "\<not> str_includes actionHost (getRegisteredDomain h)"
    and "[] \<notin> set (split_on CHR ''.'' h)"
  shows "form_step P trustedExact h f st =
     st\<lparr>reasons := reasons st @ [''Login form posts to external host ('' @ actionHost @ '')''],
        score := score st + 0.40,
        suspicious := True\<rparr>"
proof -
  from assms(1) have "\<not> nullish f" by (cases f) simp_all
  with assms show ?thesis
    by (simp add: form_step_def form_try_def Let_def inline_registered_domain)
qed

lemma evil_form_eval:
  "truthy (get_prop evil_form ''hasPassword'')" "truthy (get_prop evil_form ''action'')"
  "safeGetHostname sample_platform (get_prop evil_form ''action'') = Inr ''evil.example''"
  "''evil.example'' \<noteq> ''mybank.com''"
  "\<not> str_includes ''evil.example'' (getRegisteredDomain ''mybank.com'')"
  "[] \<notin> set (split_on CHR ''.'' ''mybank.com'')"
  by code_simp+

lemma evil_form_on_bank_page:
  "form_step sample_platform False ''mybank.com'' evil_form st =
     st\<lparr>reasons := reasons st @ [''Login form posts to external host (evil.example)''],
        score := score st + 0.40,
        suspicious := True\<rparr>"
  using form_step_external_login[OF evil_form_eval(1,2,3) _ evil_form_eval(4,5,6), of False st]
  by simp

lemma typo_ground1:
  "toLowerCase (getRegisteredDomain ''faceboook.com'') = ''faceboook.com''"
  by code_simp

lemma typo_ground2:
  "getSecondLevelLabel ''faceboook.com'' = ''faceboook''"
  by code_simp

lemma typo_ground3:
  "sld_search ''faceboook'' [''facebook.com'', ''tiktok.com'']
     \<lparr>best_domain = None, best_dist = 1.0, best_sld = None\<rparr> =
   \<lparr>best_domain = Some ''facebook.com'', best_dist = 1 / 9, best_sld = Some ''facebook''\<rparr>"
  by code_simp

lemma typo_ground4:
  "sld_search ''faceboook'' [''tiktok.com'', ''facebook.com'']
     \<lparr>best_domain = None, best_dist = 1.0, best_sld = None\<rparr> =
   \<lparr>best_domain = Some ''facebook.com'', best_dist = 1 / 9, best_sld = Some ''facebook''\<rparr>"
  by code_simp

lemma typo_ground5:
  "toFixed2 (1 / 9) = ''0.11''"
  by code_simp

lemma two_element_list:
  assumes "distinct T" and "set T = {a, b}" and "a \<noteq> b"
  shows "T = [a, b] \<or> T = [b, a]"
proof -
  from assms have "length T = 2" using distinct_card[of T] by simp
  then obtain x y where T: "T = [x, y]"
    by (cases T; cases "tl T") auto
  with assms(2) show ?thesis by (auto simp: doubleton_eq_iff)
qed

lemma typo_not_trusted:
  "''faceboook.com'' \<notin> set [''facebook.com'', ''tiktok.com'']"
  "''faceboook.com'' \<notin> set [''tiktok.com'', ''facebook.com'']"
  by simp_all

lemma typosquat_faceboook:
  assumes "T = [''facebook.com'', ''tiktok.com''] \<or> T = [''tiktok.com'', ''facebook.com'']"
  shows \<open>typosquat_check T ''faceboook.com'' st =
     brand_check T ''faceboook.com'' ''faceboook''
       (st\<lparr>reasons := reasons st @
              [''Domain SLD "faceboook" closely resembles trusted SLD "facebook" (distance 0.11). Treated as typosquat (faceboook.com ~ facebook.com).''],
           suspicious := True,
           score := max (score st) 0.75\<rparr>)\<close>
proof -
  have th: "(1 / 9 :: real) \<le> TYPOSQUAT_DISTANCE_THRESHOLD"
    by (simp add: TYPOSQUAT_DISTANCE_THRESHOLD_def)
  from assms show ?thesis
  proof
    assume T: "T = [''facebook.com'', ''tiktok.com'']"
    show ?thesis
      unfolding typosquat_check_def Let_def typo_ground1 typo_ground2 T typo_ground3
      using th typo_not_trusted(1)
      by (simp add: typo_ground5 TYPOSQUAT_SCORE_BUMP_def del: set_simps split del: if_split)
  next
    assume T: "T = [''tiktok.com'', ''facebook.com'']"
    show ?thesis
      unfolding typosquat_check_def Let_def typo_ground1 typo_ground2 T typo_ground4
      using th typo_not_trusted(2)
      by (simp add: typo_ground5 TYPOSQUAT_SCORE_BUMP_def del: set_simps split del: if_split)
  qed
qed

text \<open>
  Claim C6, amended. With the trusted set of \<^verbatim>\<open>facebook.com\<close> and \<^verbatim>\<open>tiktok.com\<close> passed
  in, in either order, every payload whose page hostname is \<^verbatim>\<open>faceboook.com\<close> gets a result
  that is suspicious, has a score of at least 0.75, and has among its reasons the one that
  names \<^verbatim>\<open>faceboook.com\<close> and \<^verbatim>\<open>facebook.com\<close> with the distance 0.11: one edit over nine
  characters, printed with two decimals.
\<close>

theorem faceboook_is_flagged:
  assumes "distinct T" and "set T = {''facebook.com'', ''tiktok.com''}"
    and "pageHostname_of P data = Inr ''faceboook.com''"
    and "analyzeProfileCore P G data (Some T) = Inr r"
  shows \<open>suspicious r \<and> 0.75 \<le> score r \<and>
     ''Domain SLD "faceboook" closely resembles trusted SLD "facebook" (distance 0.11). Treated as typosquat (faceboook.com ~ facebook.com).''
       \<in> set (reasons r)\<close>
proof -
  define R where \<open>R = ''Domain SLD "faceboook" closely resembles trusted SLD "facebook" (distance 0.11). Treated as typosquat (faceboook.com ~ facebook.com).''\<close>
  define h where "h = ''faceboook.com''"
  have T: "T = [''facebook.com'', ''tiktok.com''] \<or> T = [''tiktok.com'', ''facebook.com'']"
    using assms(1,2) by (rule two_element_list) simp
  from assms(4) obtain h' t st where
    h': "pageHostname_of P (default_data data) = Inr h'" and
    rc: "run_checks P G (trusted_arg G (Some T)) (default_data data) h' t = Inr st" and
    su: "suspicious r = suspicious (final_handling G h' st)" and
    sc: "score r = score (final_handling G h' st)" and
    re: "reasons r = reasons (final_handling G h' st)"
    by (rule analyze_Inr)
  from h' assms(3) have hh: "h' = h" by (simp add: h_def)
  define st0 where "st0 = initial (hostIsTrustedExact G h)"
  define sta where "sta = st0\<lparr>reasons := reasons st0 @ [R], suspicious := True,
                              score := max (score st0) 0.75\<rparr>"
  define st1 where "st1 = typosquat_check (trusted_arg G (Some T)) h st0"
  have "st1 = brand_check T ''faceboook.com'' ''faceboook'' sta"
    unfolding st1_def sta_def R_def h_def
    by (simp only: trusted_arg_def option.case typosquat_faceboook[OF T])
  then have "grows sta st1" by (simp add: brand_check_grows)
  moreover have "suspicious sta" "0.75 \<le> score sta" "R \<in> set (reasons sta)"
    by (simp_all add: sta_def)
  ultimately have s1: "suspicious st1" "0.75 \<le> score st1" "R \<in> set (reasons st1)"
    using set_mono_prefix[of "reasons sta" "reasons st1"] by (auto simp: grows_def)
  have "grows st1 st"
    unfolding st1_def st0_def
    using rc[unfolded hh] by (rule run_checks_grows) (use s1(1) in \<open>simp add: st1_def st0_def\<close>)
  with s1 have s: "suspicious st" "0.75 \<le> score st" "R \<in> set (reasons st)"
    using set_mono_prefix[of "reasons st1" "reasons st"] by (auto simp: grows_def)
  then have "suspicious r \<and> 0.75 \<le> score r \<and> R \<in> set (reasons r)"
    by (simp add: sc su re final_handling_def trusted_dampening_skip clamp_decide_def Let_def)
  then show ?thesis unfolding R_def .
qed

lemma typo_page_host:
  "pageHostname_of sample_platform typo_page = Inr ''faceboook.com''"
  by code_simp

lemma typo_page_eval:
  "analyzeProfileCore sample_platform DEFAULT_TRUSTED typo_page (Some DEFAULT_TRUSTED) =
     Inr \<lparr>suspicious = True, score = 0.75, reasons = typo_page_reasons,
          details = \<lparr>d_username = [], d_displayName = [], d_isVerified = False,
             d_isBrand = False, d_pageHostname = ''faceboook.com'',
             d_url = JStr ''https://faceboook.com/'',
             d_linksCount = JNum 0, d_formsCount = JNum 0\<rparr>\<rparr>"
  by code_simp

theorem faceboook_is_flagged_witness:
  \<open>\<exists>r. analyzeProfileCore sample_platform DEFAULT_TRUSTED typo_page (Some DEFAULT_TRUSTED) = Inr r \<and>
     suspicious r \<and> 0.75 \<le> score r \<and>
     ''Domain SLD "faceboook" closely resembles trusted SLD "facebook" (distance 0.11). Treated as typosquat (faceboook.com ~ facebook.com).''
       \<in> set (reasons r)\<close>
proof -
  have d: "distinct DEFAULT_TRUSTED" and s: "set DEFAULT_TRUSTED = {''facebook.com'', ''tiktok.com''}"
    by (simp_all add: DEFAULT_TRUSTED_def)
  note f = faceboook_is_flagged[OF d s typo_page_host typo_page_eval]
  show ?thesis
    by (rule exI, rule conjI[OF typo_page_eval f])
qed

text \<open>
  Claim C6 says that the reason gives a distance of about 0.22. For the page
  \<^verbatim>\<open>https://faceboook.com/\<close> the reasons are the three of \<open>typo_page_reasons\<close>; none of
  them has the text \<^verbatim>\<open>0.22\<close>, and the distance between the two labels is one ninth.
\<close>

theorem faceboook_distance_counterexample:
  "map_sum id reasons
     (analyzeProfileCore sample_platform DEFAULT_TRUSTED typo_page (Some DEFAULT_TRUSTED)) =
     Inr typo_page_reasons \<and>
   \<not> list_ex (\<lambda>x. str_includes x ''0.22'') typo_page_reasons \<and>
   normalizedDistance ''faceboook'' ''facebook'' = 1 / 9"
  by code_simp

lemma checks_default [simp]:
  "url_of (default_data d) = url_of d"
  "links_of (default_data d) = links_of d"
  "forms_of (default_data d) = forms_of d"
  "canonical_check P (default_data d) = canonical_check P d"
  unfolding url_of_def links_of_def forms_of_def canonical_check_def get_prop_default
  by (rule refl)+

lemma run_checks_default [simp]:
  "run_checks P G T (default_data d) = run_checks P G T d"
  unfolding run_checks_def checks_default by (rule refl)

lemma result_of_default [simp]:
  "result_of G (default_data d) = result_of G d"
  unfolding result_of_def checks_default get_prop_default by (rule refl)

lemma pageHostname_null: "pageHostname_of P JNull = Inr []"
  by (simp add: pageHostname_of_def url_of_def or_else_def safeGetHostname_def)

lemma trusted_not_null:
  assumes "pageHostname_of P data = Inr h" and "hostIsTrustedExact G h"
  shows "\<not> nullish (default_data data)"
proof
  assume "nullish (default_data data)"
  then have "data = JNull" by (cases data) (simp_all add: default_data_def)
  with assms(1) have "h = []" by (simp add: pageHostname_null)
  with assms(2) show False by (simp add: hostIsTrustedExact_def)
qed

text \<open>
  Claim C2. When the page is exactly trusted and the checks end with the suspicious flag
  still false (its value before the final handling of line 313), \<open>analyzeProfileCore\<close>
  returns a result that is not suspicious and whose score is at most 0.05. The first four
  hypotheses say that the coercions of lines 161 to 167 do not throw. The page is trusted by
  the global set \<open>G\<close>, the one \<open>hostIsTrustedExact\<close> reads; the message handler sets it to
  the set it passes.
\<close>

theorem trusted_unflagged_low_score:
  assumes "username_of P data = Inr u" and "displayName_of P data = Inr d"
    and "pageHostname_of P data = Inr h" and "textSample_of P data = Inr t"
    and "hostIsTrustedExact G h"
    and "run_checks P G (trusted_arg G trustedSet) data h t = Inr st"
    and "\<not> suspicious st"
  shows "\<exists>r. analyzeProfileCore P G data trustedSet = Inr r \<and> \<not> suspicious r \<and> score r \<le> 0.05"
proof -
  have n: "\<not> nullish (default_data data)"
    using assms(3,5) by (rule trusted_not_null)
  have a: "analyzeProfileCore P G data trustedSet = Inr (result_of G data u d h st)"
    using n assms(1-4,6) by (simp add: analyze_unfold)
  have "\<not> suspicious (result_of G data u d h st) \<and> score (result_of G data u d h st) \<le> 0.05"
    using assms(5,7)
    by (simp add: result_of_def final_handling_def trusted_dampening_def clamp_decide_def
          Let_def max_def min_def)
  with a show ?thesis by blast
qed

lemma trusted_forms_eval:
  "username_of sample_platform trusted_page_forms = Inr []"
  "displayName_of sample_platform trusted_page_forms = Inr []"
  "pageHostname_of sample_platform trusted_page_forms = Inr ''www.facebook.com''"
  "textSample_of sample_platform trusted_page_forms = Inr []"
  "hostIsTrustedExact DEFAULT_TRUSTED ''www.facebook.com''"
  by code_simp+

lemma trusted_forms_checks:
  "run_checks sample_platform DEFAULT_TRUSTED (trusted_arg DEFAULT_TRUSTED (Some DEFAULT_TRUSTED))
     trusted_page_forms ''www.facebook.com'' [] =
   Inr \<lparr>suspicious = False, score = 0.08,
        reasons = [''Exact registered domain is trusted'',
          ''Form with inputs but no password field (possible data harvesting)'',
          ''Form with inputs but no password field (possible data harvesting)'',
          ''Form with inputs but no password field (possible data harvesting)'']\<rparr>"
  by code_simp

lemma trusted_forms_outcome:
  "outcome (analyzeProfileCore sample_platform DEFAULT_TRUSTED trusted_page_forms
     (Some DEFAULT_TRUSTED)) = Inr (False, 0.05, JNum 0)"
  by code_simp

theorem trusted_unflagged_low_score_witness:
  "run_checks sample_platform DEFAULT_TRUSTED (trusted_arg DEFAULT_TRUSTED (Some DEFAULT_TRUSTED))
     trusted_page_forms ''www.facebook.com'' [] =
   Inr \<lparr>suspicious = False, score = 0.08,
        reasons = [''Exact registered domain is trusted'',
          ''Form with inputs but no password field (possible data harvesting)'',
          ''Form with inputs but no password field (possible data harvesting)'',
          ''Form with inputs but no password field (possible data harvesting)'']\<rparr> \<and>
   outcome (analyzeProfileCore sample_platform DEFAULT_TRUSTED trusted_page_forms
     (Some DEFAULT_TRUSTED)) = Inr (False, 0.05, JNum 0) \<and>
   (\<exists>r. analyzeProfileCore sample_platform DEFAULT_TRUSTED trusted_page_forms
          (Some DEFAULT_TRUSTED) = Inr r \<and> \<not> suspicious r \<and> score r \<le> 0.05)"
proof -
  have "\<not> suspicious \<lparr>suspicious = False, score = 0.08,
        reasons = [''Exact registered domain is trusted'',
          ''Form with inputs but no password field (possible data harvesting)'',
          ''Form with inputs but no password field (possible data harvesting)'',
          ''Form with inputs but no password field (possible data harvesting)'']\<rparr>"
    by simp
  note w = trusted_unflagged_low_score[OF trusted_forms_eval trusted_forms_checks this]
  show ?thesis
    by (rule conjI[OF trusted_forms_checks conjI[OF trusted_forms_outcome w]])
qed

lemma links_check_array:
  assumes "ls \<noteq> []"
  shows "links_check P trustedExact h (JArr ls) st =
     (if list_all (has_string P) (take 40 ls) then
        let c = min (if trustedExact then 0.15 else 0.40)
                    (sum_list (map (link_risk P h) (take 40 ls)) / real (length ls))
        in Inr (st\<lparr>reasons := reasons st @ concat (map (link_reasons P h) (take 40 ls)),
                   score := score st + c,
                   suspicious := (suspicious st \<or> 0.30 \<le> c)\<rparr>)
      else Inl TypeError)"
proof -
  from assms have "1 \<le> length ls" by (cases ls) simp_all
  then have m: "max 1 (real (length ls)) = real (length ls)" by simp
  show ?thesis
  proof (cases "list_all (has_string P) (take 40 ls)")
    case True
    with assms m show ?thesis
      by (simp add: links_check_def links_loop_closed Let_def)
  next
    case False
    with assms show ?thesis
      by (simp add: links_check_def links_loop_throws)
  qed
qed







subsection \<open>Links beyond the fortieth\<close>

lemma get_prop_with_links:
  "get_prop (with_links ls rest) ''links'' = JArr ls"
  "get_prop (with_links ls rest) ''username'' = get_prop (JObj rest) ''username''"
  "get_prop (with_links ls rest) ''handle'' = get_prop (JObj rest) ''handle''"
  "get_prop (with_links ls rest) ''user'' = get_prop (JObj rest) ''user''"
  "get_prop (with_links ls rest) ''displayName'' = get_prop (JObj rest) ''displayName''"
  "get_prop (with_links ls rest) ''fullName'' = get_prop (JObj rest) ''fullName''"
  "get_prop (with_links ls rest) ''title'' = get_prop (JObj rest) ''title''"
  "get_prop (with_links ls rest) ''url'' = get_prop (JObj rest) ''url''"
  "get_prop (with_links ls rest) ''pageUrl'' = get_prop (JObj rest) ''pageUrl''"
  "get_prop (with_links ls rest) ''origin'' = get_prop (JObj rest) ''origin''"
  "get_prop (with_links ls rest) ''hostname'' = get_prop (JObj rest) ''hostname''"
  "get_prop (with_links ls rest) ''forms'' = get_prop (JObj rest) ''forms''"
  "get_prop (with_links ls rest) ''formList'' = get_prop (JObj rest) ''formList''"
  "get_prop (with_links ls rest) ''textSample'' = get_prop (JObj rest) ''textSample''"
  "get_prop (with_links ls rest) ''ogUrl'' = get_prop (JObj rest) ''ogUrl''"
  "get_prop (with_links ls rest) ''canonical'' = get_prop (JObj rest) ''canonical''"
  "get_prop (with_links ls rest) ''isVerified'' = get_prop (JObj rest) ''isVerified''"
  "get_prop (with_links ls rest) ''isBrand'' = get_prop (JObj rest) ''isBrand''"
  by (simp_all add: with_links_def)

lemma locals_with_links:
  "username_of P (with_links ls rest) = username_of P (JObj rest)"
  "displayName_of P (with_links ls rest) = displayName_of P (JObj rest)"
  "pageHostname_of P (with_links ls rest) = pageHostname_of P (JObj rest)"
  "textSample_of P (with_links ls rest) = textSample_of P (JObj rest)"
  "url_of (with_links ls rest) = url_of (JObj rest)"
  "forms_of (with_links ls rest) = forms_of (JObj rest)"
  "canonical_check P (with_links ls rest) = canonical_check P (JObj rest)"
  unfolding username_of_def usernameRaw_of_def displayName_of_def pageHostname_of_def
    textSample_of_def url_of_def forms_of_def canonical_check_def get_prop_with_links
  by (rule refl)+

lemma links_with_links:
  "links_of (with_links ls rest) = JArr ls"
  "default_data (with_links ls rest) = with_links ls rest"
  "\<not> nullish (with_links ls rest)"
  by (simp_all add: links_of_def get_prop_with_links default_data_def with_links_def)

lemma checks_with_links:
  "pre_links P G T (with_links ls rest) h = pre_links P G T (JObj rest) h"
  "post_links P G (with_links ls rest) h t st = post_links P G (JObj rest) h t st"
  unfolding pre_links_def post_links_def locals_with_links by (rule refl)+

lemma result_of_with_links:
  "result_of G (with_links ls rest) u d h st =
     set_linksCount (JNum (real (length ls))) (result_of G (JObj rest) u d h st)"
  unfolding result_of_def locals_with_links links_with_links get_prop_with_links
  by (simp add: set_linksCount_def)

lemma set_linksCount_twice:
  "set_linksCount n (set_linksCount m r) = set_linksCount n r"
  by (simp add: set_linksCount_def)

text \<open>
  The call on a payload with the links \<open>ls\<close>: the links enter through the link step and
  through their number only.
\<close>

lemma analyze_with_links:
  "analyzeProfileCore P G (with_links ls rest) trustedSet =
     (case username_of P (JObj rest) of Inl e \<Rightarrow> Inl e | Inr u \<Rightarrow>
      case displayName_of P (JObj rest) of Inl e \<Rightarrow> Inl e | Inr d \<Rightarrow>
      case pageHostname_of P (JObj rest) of Inl e \<Rightarrow> Inl e | Inr h \<Rightarrow>
      case textSample_of P (JObj rest) of Inl e \<Rightarrow> Inl e | Inr t \<Rightarrow>
      case pre_links P G (trusted_arg G trustedSet) (JObj rest) h of Inl e \<Rightarrow> Inl e | Inr st3 \<Rightarrow>
      case links_check P (hostIsTrustedExact G h) h (JArr ls) st3 of Inl e \<Rightarrow> Inl e | Inr st4 \<Rightarrow>
        Inr (set_linksCount (JNum (real (length ls)))
               (result_of G (JObj rest) u d h (post_links P G (JObj rest) h t st4))))"
  by (simp add: analyze_unfold locals_with_links links_with_links run_checks_split
        checks_with_links result_of_with_links split: sum.splits)

lemma links_check_surplus:
  assumes "length xs = 40" and "length ys = length ys'"
  shows "links_check P te h (JArr (xs @ ys)) st = links_check P te h (JArr (xs @ ys')) st"
proof -
  from assms(1) have n: "xs @ ys \<noteq> []" "xs @ ys' \<noteq> []" by auto
  from assms show ?thesis
    by (simp add: links_check_array[OF n(1)] links_check_array[OF n(2)])
qed

lemma links_check_riskless:
  assumes "list_all (riskless P h) (take 40 ls)"
  shows "links_check P te h (JArr ls) st = Inr st"
proof (cases "ls = []")
  case True
  then show ?thesis by (simp add: links_check_def)
next
  case False
  from assms have r: "\<forall>L \<in> set (take 40 ls). riskless P h L" by (simp add: list_all_iff)
  have hs: "list_all (has_string P) (take 40 ls)"
    unfolding list_all_iff
  proof
    fix L assume "L \<in> set (take 40 ls)"
    with r have "riskless P h L" by blast
    then show "has_string P L" by (simp add: riskless_iff)
  qed
  have z: "map (link_risk P h) (take 40 ls) = map (\<lambda>L. 0) (take 40 ls)"
    using r by (intro map_cong refl) (simp add: riskless_iff)
  have e: "map (link_reasons P h) (take 40 ls) = map (\<lambda>L. []) (take 40 ls)"
    using r by (intro map_cong refl) (simp add: riskless_iff)
  have s: "sum_list (map (\<lambda>L. 0::real) (take 40 ls)) = 0" by (induction "take 40 ls" arbitrary: ls) simp_all
  show ?thesis
    by (simp add: links_check_array[OF False] hs z e Let_def del: take_map map_eq_conv)
qed

text \<open>
  Claim C3 (corrected). Links beyond the fortieth are not assessed, but they are not ignored:
  their number is the divisor of the risk quotient (line 261) and is reported as
  \<^verbatim>\<open>details.linksCount\<close> (line 332). For a payload whose first 40 links are \<open>xs\<close>:
  the result depends on the further links only through their number; and when each of the
  first 40 links is assessed with risk 0 and no reason, the result for the longer list is the
  result for the first 40 links alone with \<^verbatim>\<open>details.linksCount\<close> replaced by the
  number of links supplied.
\<close>

theorem surplus_links_change_only_the_count:
  assumes "length xs = 40"
  shows "(length ys = length ys' \<longrightarrow>
            analyzeProfileCore P G (with_links (xs @ ys) rest) trustedSet =
            analyzeProfileCore P G (with_links (xs @ ys') rest) trustedSet) \<and>
         (riskless_links P (with_links xs rest) xs \<longrightarrow>
            analyzeProfileCore P G (with_links (xs @ ys) rest) trustedSet =
            map_sum id (set_linksCount (JNum (real (length (xs @ ys)))))
              (analyzeProfileCore P G (with_links xs rest) trustedSet))"
proof (intro conjI impI)
  assume l: "length ys = length ys'"
  with assms have c:
    "\<And>te h st. links_check P te h (JArr (xs @ ys)) st = links_check P te h (JArr (xs @ ys')) st"
    by (rule links_check_surplus)
  from l have n: "length (xs @ ys) = length (xs @ ys')" by simp
  show "analyzeProfileCore P G (with_links (xs @ ys) rest) trustedSet =
        analyzeProfileCore P G (with_links (xs @ ys') rest) trustedSet"
    unfolding analyze_with_links c n by (rule refl)
next
  assume r: "riskless_links P (with_links xs rest) xs"
  have a: "links_check P te h (JArr (xs @ ys)) st = Inr st"
    if "pageHostname_of P (JObj rest) = Inr h" for h te st
    using r that assms
    by (intro links_check_riskless) (simp add: riskless_links_def locals_with_links)
  have b: "links_check P te h (JArr xs) st = Inr st"
    if "pageHostname_of P (JObj rest) = Inr h" for h te st
    using r that assms
    by (intro links_check_riskless) (simp add: riskless_links_def locals_with_links)
  show "analyzeProfileCore P G (with_links (xs @ ys) rest) trustedSet =
        map_sum id (set_linksCount (JNum (real (length (xs @ ys)))))
          (analyzeProfileCore P G (with_links xs rest) trustedSet)"
    by (simp add: analyze_with_links a b set_linksCount_twice split: sum.splits)
qed

lemma links45_split:
  "links45 = replicate 40 (JStr ''https://ok.example/'') @ replicate 5 (JStr ''http://10.0.0.1/'')"
  "take 40 links45 = replicate 40 (JStr ''https://ok.example/'')"
  by (simp_all add: links45_def)

lemma links45_riskless:
  "riskless_links sample_platform
     (with_links (replicate 40 (JStr ''https://ok.example/'')) bank_page)
     (replicate 40 (JStr ''https://ok.example/''))"
  by code_simp

theorem surplus_links_change_only_the_count_witness:
  "analyzeProfileCore sample_platform DEFAULT_TRUSTED (with_links links45 bank_page)
     (Some DEFAULT_TRUSTED) =
   analyzeProfileCore sample_platform DEFAULT_TRUSTED
     (with_links (replicate 45 (JStr ''https://ok.example/'')) bank_page) (Some DEFAULT_TRUSTED) \<and>
   analyzeProfileCore sample_platform DEFAULT_TRUSTED (with_links links45 bank_page)
     (Some DEFAULT_TRUSTED) =
   map_sum id (set_linksCount (JNum 45))
     (analyzeProfileCore sample_platform DEFAULT_TRUSTED (with_links (take 40 links45) bank_page)
        (Some DEFAULT_TRUSTED))"
proof -
  have l: "length (replicate 40 (JStr ''https://ok.example/'')) = 40"
    "length (replicate 5 (JStr ''http://10.0.0.1/'')) =
     length (replicate 5 (JStr ''https://ok.example/''))"
    by simp_all
  have e: "replicate 45 (JStr ''https://ok.example/'') =
           replicate 40 (JStr ''https://ok.example/'') @ replicate 5 (JStr ''https://ok.example/'')"
    by (simp add: replicate_add[symmetric])
  note w = surplus_links_change_only_the_count[OF l(1),
      where ys = "replicate 5 (JStr ''http://10.0.0.1/'')"
        and ys' = "replicate 5 (JStr ''https://ok.example/'')"
        and P = sample_platform and G = DEFAULT_TRUSTED and rest = bank_page
        and trustedSet = "Some DEFAULT_TRUSTED"]
  from w[THEN conjunct1, rule_format, OF l(2)] w[THEN conjunct2, rule_format, OF links45_riskless]
  show ?thesis
    unfolding links45_split e by simp
qed

text \<open>
  Claim C3, the counterexamples. With 40 harmless links followed by 5 links to an IP address
  on an untrusted page, the flag and the score agree (0.25) but \<^verbatim>\<open>details.linksCount\<close> is
  45 against 40, so the two results differ. With 40 links that the URL constructor rejects
  (0.05 each) followed by the same 5 links, the score differs too: the risk sum 2 is divided
  by 45 in one call and by 40 in the other, which gives 0.25 + 2/45 against 0.30.
\<close>

theorem surplus_links_counterexample:
  "outcome (analyzeProfileCore sample_platform DEFAULT_TRUSTED (with_links links45 bank_page)
     (Some DEFAULT_TRUSTED)) = Inr (False, 0.25, JNum 45) \<and>
   outcome (analyzeProfileCore sample_platform DEFAULT_TRUSTED
     (with_links (take 40 links45) bank_page) (Some DEFAULT_TRUSTED)) = Inr (False, 0.25, JNum 40) \<and>
   analyzeProfileCore sample_platform DEFAULT_TRUSTED (with_links links45 bank_page)
     (Some DEFAULT_TRUSTED) \<noteq>
   analyzeProfileCore sample_platform DEFAULT_TRUSTED (with_links (take 40 links45) bank_page)
     (Some DEFAULT_TRUSTED) \<and>
   map (link_risk sample_platform ''mybank.com'') links45_low = replicate 40 0.05 @ replicate 5 0.2 \<and>
   outcome (analyzeProfileCore sample_platform DEFAULT_TRUSTED (with_links links45_low bank_page)
     (Some DEFAULT_TRUSTED)) = Inr (False, 0.25 + 2 / 45, JNum 45) \<and>
   outcome (analyzeProfileCore sample_platform DEFAULT_TRUSTED
     (with_links (take 40 links45_low) bank_page) (Some DEFAULT_TRUSTED)) = Inr (False, 0.30, JNum 40)"
proof -
  have a: "outcome (analyzeProfileCore sample_platform DEFAULT_TRUSTED (with_links links45 bank_page)
     (Some DEFAULT_TRUSTED)) = Inr (False, 0.25, JNum 45)"
    by code_simp
  have b: "outcome (analyzeProfileCore sample_platform DEFAULT_TRUSTED
     (with_links (take 40 links45) bank_page) (Some DEFAULT_TRUSTED)) = Inr (False, 0.25, JNum 40)"
    by code_simp
  have c: "analyzeProfileCore sample_platform DEFAULT_TRUSTED (with_links links45 bank_page)
     (Some DEFAULT_TRUSTED) \<noteq>
   analyzeProfileCore sample_platform DEFAULT_TRUSTED (with_links (take 40 links45) bank_page)
     (Some DEFAULT_TRUSTED)"
  proof
    assume "analyzeProfileCore sample_platform DEFAULT_TRUSTED (with_links links45 bank_page)
     (Some DEFAULT_TRUSTED) =
     analyzeProfileCore sample_platform DEFAULT_TRUSTED (with_links (take 40 links45) bank_page)
     (Some DEFAULT_TRUSTED)"
    then have "outcome (analyzeProfileCore sample_platform DEFAULT_TRUSTED
        (with_links links45 bank_page) (Some DEFAULT_TRUSTED)) =
      outcome (analyzeProfileCore sample_platform DEFAULT_TRUSTED
        (with_links (take 40 links45) bank_page) (Some DEFAULT_TRUSTED))"
      by (rule arg_cong)
    then show False unfolding a b by simp
  qed
  have d: "map (link_risk sample_platform ''mybank.com'') links45_low =
      replicate 40 0.05 @ replicate 5 0.2"
    by code_simp
  have e: "outcome (analyzeProfileCore sample_platform DEFAULT_TRUSTED
     (with_links links45_low bank_page) (Some DEFAULT_TRUSTED)) = Inr (False, 0.25 + 2 / 45, JNum 45)"
    by code_simp
  have f: "outcome (analyzeProfileCore sample_platform DEFAULT_TRUSTED
     (with_links (take 40 links45_low) bank_page) (Some DEFAULT_TRUSTED)) = Inr (False, 0.30, JNum 40)"
    by code_simp
  from a b c d e f show ?thesis by (intro conjI)
qed


end
